theory Spec2Isabelle
  imports Complex_Main "HOL-Library.Sublist"
begin

section \<open>Python strings\<close>

text \<open>
  A Python \<^verbatim>\<open>str\<close> is modelled as a \<^typ>\<open>string\<close> whose characters are code points
  below 256 (Latin-1): every keyword, template and test message of the repository lies in
  that range. The character classes below are Python's \<^verbatim>\<open>str.isspace\<close>,
  \<^verbatim>\<open>str.isalpha\<close>, \<^verbatim>\<open>str.isupper\<close> and \<^verbatim>\<open>str.lower\<close> restricted to that range.
\<close>

definition code :: "char \<Rightarrow> nat" where
  "code c = of_char c"

definition py_isspace :: "char \<Rightarrow> bool" where
  "py_isspace c =
     ((9 \<le> code c \<and> code c \<le> 13) \<or> (28 \<le> code c \<and> code c \<le> 32)
      \<or> code c = 133 \<or> code c = 160)"

definition py_isupper :: "char \<Rightarrow> bool" where
  "py_isupper c =
     ((65 \<le> code c \<and> code c \<le> 90) \<or> (192 \<le> code c \<and> code c \<le> 214)
      \<or> (216 \<le> code c \<and> code c \<le> 222))"

definition py_isalpha :: "char \<Rightarrow> bool" where
  "py_isalpha c =
     ((65 \<le> code c \<and> code c \<le> 90) \<or> (97 \<le> code c \<and> code c \<le> 122)
      \<or> code c = 170 \<or> code c = 181 \<or> code c = 186
      \<or> (192 \<le> code c \<and> code c \<le> 214) \<or> (216 \<le> code c \<and> code c \<le> 246)
      \<or> (248 \<le> code c \<and> code c \<le> 255))"

definition lower_char :: "char \<Rightarrow> char" where
  "lower_char c = (if py_isupper c then char_of (code c + 32) else c)"

definition lower :: "string \<Rightarrow> string" where
  "lower s = map lower_char s"

definition lstrip :: "string \<Rightarrow> string" where
  "lstrip s = dropWhile py_isspace s"

definition rstrip :: "string \<Rightarrow> string" where
  "rstrip s = rev (dropWhile py_isspace (rev s))"

definition strip :: "string \<Rightarrow> string" where
  "strip s = rstrip (lstrip s)"

text \<open>\<^verbatim>\<open>s.startswith(p)\<close> and the substring test \<^verbatim>\<open>p in s\<close>.\<close>

fun startswith :: "string \<Rightarrow> string \<Rightarrow> bool" where
  "startswith s [] = True"
| "startswith [] (p # ps) = False"
| "startswith (c # cs) (p # ps) = (c = p \<and> startswith cs ps)"

fun contains :: "string \<Rightarrow> string \<Rightarrow> bool" where
  "contains p [] = (p = [])"
| "contains p (c # cs) = (startswith (c # cs) p \<or> contains p cs)"

text \<open>\<^verbatim>\<open>s.count(c)\<close> for a one-character \<^verbatim>\<open>c\<close>.\<close>

definition count_char :: "string \<Rightarrow> char \<Rightarrow> nat" where
  "count_char s c = length (filter (\<lambda>x. x = c) s)"

text \<open>
  \<^verbatim>\<open>s.split()\<close>: the maximal runs of non-whitespace characters. The first argument
  is the word being read.
\<close>

fun split_words :: "string \<Rightarrow> string \<Rightarrow> string list" where
  "split_words cur [] = (if cur = [] then [] else [cur])"
| "split_words cur (c # cs) =
     (if py_isspace c then (if cur = [] then split_words [] cs else cur # split_words [] cs)
      else split_words (cur @ [c]) cs)"

definition split_ws :: "string \<Rightarrow> string list" where
  "split_ws s = split_words [] s"

text \<open>The truth value of an optional string (\<^verbatim>\<open>None\<close> and \<^verbatim>\<open>''\<close> are false) and \<^verbatim>\<open>x or ''\<close>.\<close>

definition truthy :: "string option \<Rightarrow> bool" where
  "truthy x = (case x of None \<Rightarrow> False | Some s \<Rightarrow> s \<noteq> [])"

definition or_empty :: "string option \<Rightarrow> string" where
  "or_empty x = (case x of None \<Rightarrow> [] | Some s \<Rightarrow> s)"

section \<open>Feature scorer (text\_features.py)\<close>

definition technical_keywords :: "string list" where
  "technical_keywords =
     [''erro'', ''bug'', ''falha'', ''defeito'', ''problema t'' @ [CHR 0xE9] @ ''cnico'',
      ''n'' @ [CHR 0xE3] @ ''o funciona'', ''n'' @ [CHR 0xE3] @ ''o consegui'', ''travando'',
      ''lento'', ''crash'', ''parou'', ''quebrado'', ''corrompido'']"

definition business_keywords :: "string list" where
  "business_keywords =
     [''pre'' @ [CHR 0xE7] @ ''o'', ''custo'', ''valor'', ''or'' @ [CHR 0xE7] @ ''amento'',
      ''proposta'', ''contrato'', ''comprar'', ''adquirir'', ''contratar'',
      ''investimento'', ''pagamento'', ''fatura'']"

definition support_keywords :: "string list" where
  "support_keywords =
     [''ajuda'', ''suporte'', ''d'' @ [CHR 0xFA] @ ''vida'', ''como fazer'',
      ''n'' @ [CHR 0xE3] @ ''o sei'', ''orienta'' @ [CHR 0xE7, CHR 0xE3] @ ''o'',
      ''assist'' @ [CHR 0xEA] @ ''ncia'', ''informa'' @ [CHR 0xE7, CHR 0xE3] @ ''o'',
      ''esclarecimento'', ''tutorial'', ''instru'' @ [CHR 0xE7, CHR 0xE3] @ ''o'',
      ''passo a passo'']"

definition social_keywords :: "string list" where
  "social_keywords =
     [''parab'' @ [CHR 0xE9] @ ''ns'', ''felicita'' @ [CHR 0xE7, CHR 0xF5] @ ''es'',
      ''anivers'' @ [CHR 0xE1] @ ''rio'', ''festa'', ''convite'',
      ''celebra'' @ [CHR 0xE7, CHR 0xE3] @ ''o'', ''gratid'' @ [CHR 0xE3] @ ''o'',
      ''obrigado por tudo'', ''abra'' @ [CHR 0xE7] @ ''o'', ''beijo'', ''feliz'', ''alegria'']"

definition urgency_keywords :: "string list" where
  "urgency_keywords =
     [''urgente'', ''imediato'', ''asap'', ''r'' @ [CHR 0xE1] @ ''pido'', ''prazo'',
      ''emerg'' @ [CHR 0xEA] @ ''ncia'', ''cr'' @ [CHR 0xED] @ ''tico'', ''quanto antes'']"

text \<open>
  Scores are Python floats. They are modelled as real numbers, a decimal literal standing
  for the decimal it writes. The classifier only compares scores with such literals, and
  the sums formed for the messages evaluated in this theory are exact in binary floating
  point as well (see \<open>binary64_sum_is_half\<close>).
\<close>

definition calculate_caps_ratio :: "string \<Rightarrow> real" where
  "calculate_caps_ratio text =
     (if text = [] then 0
      else let letters = filter py_isalpha text in
        if letters = [] then 0
        else real (length (filter py_isupper letters)) / real (length letters))"

definition calculate_keyword_score :: "string \<Rightarrow> string list \<Rightarrow> real" where
  "calculate_keyword_score text keywords =
     (if keywords = [] then 0
      else let matches = length (filter (\<lambda>keyword. contains keyword text) keywords) in
        min (real matches / 3) 1)"

definition calculate_urgency_score :: "string \<Rightarrow> real" where
  "calculate_urgency_score text =
     (let score = fold (\<lambda>keyword score. if contains keyword text then score + 0.3 else score)
                    urgency_keywords 0;
          score = (if count_char text (CHR ''!'') \<ge> 2 then score + 0.2 else score);
          caps_ratio = calculate_caps_ratio text;
          score = (if caps_ratio > 0.5 then score + 0.2 else score)
      in min score 1)"

text \<open>
  The feature dictionary. Only the entries the heuristic classifier reads are kept; each
  is optional because the classifier reads them with \<^verbatim>\<open>features.get(key, default)\<close>, and
  the extractor's error path returns the empty dictionary.
\<close>

record features =
  technical_score :: "real option"
  business_score :: "real option"
  support_score :: "real option"
  social_score :: "real option"
  urgency_score :: "real option"
  has_multiple_questions :: "bool option"
  word_count :: "nat option"

definition empty_features :: features where
  "empty_features =
     \<lparr>technical_score = None, business_score = None, support_score = None,
      social_score = None, urgency_score = None, has_multiple_questions = None,
      word_count = None\<rparr>"

definition extract_all_features :: "string \<Rightarrow> string option \<Rightarrow> features" where
  "extract_all_features text subject =
     (let full_text = lower (or_empty subject @ '' '' @ text) in
      \<lparr>technical_score = Some (calculate_keyword_score full_text technical_keywords),
       business_score = Some (calculate_keyword_score full_text business_keywords),
       support_score = Some (calculate_keyword_score full_text support_keywords),
       social_score = Some (calculate_keyword_score full_text social_keywords),
       urgency_score = Some (calculate_urgency_score full_text),
       has_multiple_questions = Some (count_char text (CHR ''?'') \<ge> 2),
       word_count = Some (length (split_ws text))\<rparr>)"

section \<open>Heuristic classifier (classifier.py)\<close>

text \<open>
  An f-string is kept as its pieces: the literal text and the formatted values, a float
  with its number of decimals (\<^verbatim>\<open>{x:.2f}\<close>) or an integer.
\<close>

datatype fpart = Lit string | Float_fmt nat real | Int_fmt nat

type_synonym fstring = "fpart list"

record fallback_result =
  category :: string
  reasoning :: fstring
  confidence :: string

definition get_or :: "'a option \<Rightarrow> 'a \<Rightarrow> 'a" where
  "get_or x d = (case x of None \<Rightarrow> d | Some v \<Rightarrow> v)"

definition nlp_enhanced_fallback ::
  "string \<Rightarrow> string option \<Rightarrow> features option \<Rightarrow> fallback_result" where
  "nlp_enhanced_fallback content subject features_arg =
     (let features = (case features_arg of
                        None \<Rightarrow> extract_all_features content subject
                      | Some f \<Rightarrow> f);
          technical = get_or (technical_score features) 0;
          business = get_or (business_score features) 0;
          support = get_or (support_score features) 0;
          social = get_or (social_score features) 0;
          urgency = get_or (urgency_score features) 0
      in
      if urgency > 0.5 \<and> (technical > 0.2 \<or> business > 0.2) then
        \<lparr>category = ''productive'',
         reasoning = [Lit (''Email urgente detectado com contexto de neg'' @ [CHR 0xF3]
                           @ ''cios (urg'' @ [CHR 0xEA] @ ''ncia: ''),
                      Float_fmt 1 urgency, Lit '')''],
         confidence = ''high''\<rparr>
      else if technical > 0.4 then
        \<lparr>category = ''productive'',
         reasoning = [Lit (''Problema t'' @ [CHR 0xE9]
                           @ ''cnico identificado pelas features NLP (score: ''),
                      Float_fmt 2 technical, Lit '')''],
         confidence = ''high''\<rparr>
      else if business > 0.4 then
        \<lparr>category = ''productive'',
         reasoning = [Lit (''Quest'' @ [CHR 0xE3] @ ''o comercial identificada (score: ''),
                      Float_fmt 2 business, Lit '')''],
         confidence = ''high''\<rparr>
      else if support > 0.4 then
        \<lparr>category = ''productive'',
         reasoning = [Lit (''Solicita'' @ [CHR 0xE7, CHR 0xE3]
                           @ ''o de suporte identificada (score: ''),
                      Float_fmt 2 support, Lit '')''],
         confidence = ''medium''\<rparr>
      else if social > 0.4 \<and> technical < 0.1 \<and> business < 0.1 then
        \<lparr>category = ''unproductive'',
         reasoning = [Lit (''Mensagem social/pessoal sem contexto de neg'' @ [CHR 0xF3]
                           @ ''cios (score social: ''),
                      Float_fmt 2 social, Lit '')''],
         confidence = ''high''\<rparr>
      else if get_or (has_multiple_questions features) False \<and> social < 0.2 then
        \<lparr>category = ''productive'',
         reasoning = [Lit (''M'' @ [CHR 0xFA] @ ''ltiplas perguntas detectadas, ''
                           @ ''indicando necessidade de suporte'')],
         confidence = ''medium''\<rparr>
      else if get_or (word_count features) 0 < 10 then
        \<lparr>category = ''unproductive'',
         reasoning = [Lit ''Mensagem muito curta ('', Int_fmt (get_or (word_count features) 0),
                      Lit '' palavras) sem indicadores claros''],
         confidence = ''medium''\<rparr>
      else
        \<lparr>category = ''unproductive'',
         reasoning = [Lit (''Sem indicadores claros de necessidade de a'' @ [CHR 0xE7, CHR 0xE3]
                           @ ''o (an'' @ [CHR 0xE1] @ ''lise NLP conservadora)'')],
         confidence = ''low''\<rparr>)"


section \<open>JSON values\<close>

text \<open>
  The values \<^verbatim>\<open>json.loads\<close> produces. A number keeps its lexeme; an object keeps its
  members in the order read, and a lookup takes the last member of a key, as the Python
  dictionary built from them does.
\<close>

datatype json =
  JNull | JBool bool | JNumber string | JString string
  | JArray "json list" | JObject "(string \<times> json) list"

definition dict_get :: "(string \<times> json) list \<Rightarrow> string \<Rightarrow> json option" where
  "dict_get members k = map_of (rev members) k"

definition has_key :: "(string \<times> json) list \<Rightarrow> string \<Rightarrow> bool" where
  "has_key members k = (dict_get members k \<noteq> None)"

text \<open>
  A decoder for the fragment of JSON without \<^verbatim>\<open>\u\<close> escapes, over Latin-1 text. It is
  used only to evaluate concrete provider outputs; every general statement below takes
  the decoder as a parameter \<open>loads\<close>, with \<open>None\<close> for a \<^verbatim>\<open>JSONDecodeError\<close>.
\<close>

definition json_ws :: "char \<Rightarrow> bool" where
  "json_ws c = (c = CHR '' '' \<or> code c = 9 \<or> code c = 10 \<or> code c = 13)"

definition skip_ws :: "string \<Rightarrow> string" where
  "skip_ws s = dropWhile json_ws s"

definition is_digit :: "char \<Rightarrow> bool" where
  "is_digit c = (48 \<le> code c \<and> code c \<le> 57)"

definition unescape :: "char \<Rightarrow> char option" where
  "unescape e =
     (if e = CHR 0x22 \<or> e = CHR 0x5C \<or> e = CHR ''/'' then Some e
      else if e = CHR ''b'' then Some (CHR 0x08)
      else if e = CHR ''f'' then Some (CHR 0x0C)
      else if e = CHR ''n'' then Some (CHR 0x0A)
      else if e = CHR ''r'' then Some (CHR 0x0D)
      else if e = CHR ''t'' then Some (CHR 0x09)
      else None)"

text \<open>The characters of a string literal after its opening quote, up to the closing one.\<close>

fun parse_string_body :: "string \<Rightarrow> string \<Rightarrow> (string \<times> string) option" where
  "parse_string_body acc [] = None"
| "parse_string_body acc [c] = (if c = CHR 0x22 then Some (rev acc, []) else None)"
| "parse_string_body acc (c # e # cs) =
     (if c = CHR 0x22 then Some (rev acc, e # cs)
      else if c = CHR 0x5C then
        (case unescape e of None \<Rightarrow> None | Some ch \<Rightarrow> parse_string_body (ch # acc) cs)
      else if code c < 32 then None
      else parse_string_body (c # acc) (e # cs))"

definition take_digits :: "string \<Rightarrow> (string \<times> string) option" where
  "take_digits s =
     (if takeWhile is_digit s = [] then None
      else Some (takeWhile is_digit s, dropWhile is_digit s))"

definition parse_number :: "string \<Rightarrow> (string \<times> string) option" where
  "parse_number s =
     (let (sign, s1) = (if startswith s ''-'' then (''-'', tl s) else ([], s)) in
      if startswith s1 ''Infinity'' then Some (sign @ ''Infinity'', drop 8 s1)
      else case take_digits s1 of
        None \<Rightarrow> None
      | Some (ds, s2) \<Rightarrow>
          let (int_part, s2) = (if startswith ds ''0'' then (''0'', tl ds @ s2) else (ds, s2));
              (frac_part, s3) =
                (if startswith s2 ''.'' then
                   (case take_digits (tl s2) of
                      None \<Rightarrow> ([], s2)
                    | Some (fs, r) \<Rightarrow> (''.'' @ fs, r))
                 else ([], s2));
              (exp_part, s4) =
                (if startswith s3 ''e'' \<or> startswith s3 ''E'' then
                   (let (esign, r) =
                          (if startswith (tl s3) ''+'' \<or> startswith (tl s3) ''-''
                           then ([hd (tl s3)], tl (tl s3)) else ([], tl s3))
                    in case take_digits r of
                         None \<Rightarrow> ([], s3)
                       | Some (es, r') \<Rightarrow> ([hd s3] @ esign @ es, r'))
                 else ([], s3))
          in Some (sign @ int_part @ frac_part @ exp_part, s4))"

text \<open>
  The first argument bounds the number of nested calls; \<open>json_loads\<close> starts with more
  than any text of that length can need.
\<close>

fun parse_value :: "nat \<Rightarrow> string \<Rightarrow> (json \<times> string) option"
  and parse_elements :: "nat \<Rightarrow> json list \<Rightarrow> string \<Rightarrow> (json \<times> string) option"
  and parse_members :: "nat \<Rightarrow> (string \<times> json) list \<Rightarrow> string \<Rightarrow> (json \<times> string) option"
where
  "parse_value 0 s = None"
| "parse_value (Suc n) s =
     (if startswith s ''{'' then
        (if startswith (skip_ws (tl s)) ''}'' then Some (JObject [], tl (skip_ws (tl s)))
         else parse_members n [] (skip_ws (tl s)))
      else if startswith s ''['' then
        (if startswith (skip_ws (tl s)) '']'' then Some (JArray [], tl (skip_ws (tl s)))
         else parse_elements n [] (skip_ws (tl s)))
      else if startswith s [CHR 0x22] then
        (case parse_string_body [] (tl s) of
           None \<Rightarrow> None
         | Some (t, r) \<Rightarrow> Some (JString t, r))
      else if startswith s ''null'' then Some (JNull, drop 4 s)
      else if startswith s ''true'' then Some (JBool True, drop 4 s)
      else if startswith s ''false'' then Some (JBool False, drop 5 s)
      else if startswith s ''NaN'' then Some (JNumber ''NaN'', drop 3 s)
      else case parse_number s of
             None \<Rightarrow> None
           | Some (lexeme, r) \<Rightarrow> Some (JNumber lexeme, r))"
| "parse_elements 0 acc s = None"
| "parse_elements (Suc n) acc s =
     (case parse_value n s of
        None \<Rightarrow> None
      | Some (v, r) \<Rightarrow>
          if startswith (skip_ws r) '','' then
            parse_elements n (acc @ [v]) (skip_ws (tl (skip_ws r)))
          else if startswith (skip_ws r) '']'' then Some (JArray (acc @ [v]), tl (skip_ws r))
          else None)"
| "parse_members 0 acc s = None"
| "parse_members (Suc n) acc s =
     (if startswith s [CHR 0x22] then
        (case parse_string_body [] (tl s) of
           None \<Rightarrow> None
         | Some (k, r) \<Rightarrow>
             if startswith (skip_ws r) '':'' then
               (case parse_value n (skip_ws (tl (skip_ws r))) of
                  None \<Rightarrow> None
                | Some (v, r') \<Rightarrow>
                    if startswith (skip_ws r') '','' then
                      parse_members n (acc @ [(k, v)]) (skip_ws (tl (skip_ws r')))
                    else if startswith (skip_ws r') ''}'' then
                      Some (JObject (acc @ [(k, v)]), tl (skip_ws r'))
                    else None)
             else None)
      else None)"

definition json_loads :: "string \<Rightarrow> json option" where
  "json_loads s =
     (case parse_value (2 * length s + 2) (skip_ws s) of
        None \<Rightarrow> None
      | Some (v, r) \<Rightarrow> if skip_ws r = [] then Some v else None)"

section \<open>AI client: circuit breaker (gemini\_service.py)\<close>

text \<open>
  The attributes of \<^verbatim>\<open>GeminiService\<close> the breaker and the retry loop use. Clock
  readings (\<^verbatim>\<open>time.time()\<close>) are real numbers supplied by the caller of the model.
\<close>

record gemini_service =
  model :: string
  fallback_model :: string
  circuit_breaker_errors :: "real list"
  circuit_open_until :: real

definition circuit_breaker_threshold :: nat where
  "circuit_breaker_threshold = 3"

definition circuit_breaker_timeout :: real where
  "circuit_breaker_timeout = 45"

definition init_service :: gemini_service where
  "init_service =
     \<lparr>model = ''gemini-2.5-flash-lite'', fallback_model = ''gemini-2.5-flash-lite'',
      circuit_breaker_errors = [], circuit_open_until = 0\<rparr>"

definition is_circuit_open :: "real \<Rightarrow> gemini_service \<Rightarrow> bool \<times> gemini_service" where
  "is_circuit_open current_time s =
     (if current_time > circuit_open_until s then (False, s\<lparr>circuit_breaker_errors := []\<rparr>)
      else
        let recent_errors = filter (\<lambda>t. current_time - t < 60) (circuit_breaker_errors s);
            s' = s\<lparr>circuit_breaker_errors := recent_errors\<rparr>
        in if length recent_errors \<ge> circuit_breaker_threshold then (True, s')
           else (False, s'))"

definition record_error :: "real \<Rightarrow> gemini_service \<Rightarrow> gemini_service" where
  "record_error current_time s =
     (let s' = s\<lparr>circuit_breaker_errors := circuit_breaker_errors s @ [current_time]\<rparr>
      in if length (circuit_breaker_errors s') \<ge> circuit_breaker_threshold
         then s'\<lparr>circuit_open_until := current_time + circuit_breaker_timeout\<rparr>
         else s')"

section \<open>AI client: the provider's answers\<close>

text \<open>
  What one HTTP request to the provider does: it times out, fails in the client library
  with a message, or answers with a status and a body. Of the body only the
  \<^verbatim>\<open>candidates\<close> entry is read; it is typed after the provider's response schema, every
  key optional as the source tests for it.
\<close>

record function_call =
  fc_name :: "string option"
  fc_args :: "json option"

record part =
  part_function_call :: "function_call option"
  part_text :: "string option"

record content_obj =
  content_parts :: "part list option"
  content_text :: "string option"

record candidate =
  cand_content :: "content_obj option"
  cand_text :: "string option"
  finish_reason :: "string option"

datatype http_outcome =
  Timed_out | Client_error string | Response nat "candidate list option"

fun show_nat :: "nat \<Rightarrow> string" where
  "show_nat n =
     (if n < 10 then [char_of (48 + n)]
      else show_nat (n div 10) @ [char_of (48 + n mod 10)])"

declare show_nat.simps [simp del]

definition candidate_parts :: "candidate \<Rightarrow> part list option" where
  "candidate_parts c =
     (case cand_content c of None \<Rightarrow> None | Some ct \<Rightarrow> content_parts ct)"

definition generated_text :: "candidate \<Rightarrow> string" where
  "generated_text c =
     (case candidate_parts c of
        Some ps \<Rightarrow> concat (map (\<lambda>p. or_empty (part_text p)) (filter (\<lambda>p. part_text p \<noteq> None) ps))
      | None \<Rightarrow>
          (case (case cand_content c of None \<Rightarrow> None | Some ct \<Rightarrow> content_text ct) of
             Some t \<Rightarrow> t
           | None \<Rightarrow> or_empty (cand_text c)))"

text \<open>
  \<^verbatim>\<open>_call_gemini_api\<close>: the text of the first candidate, stripped (empty when there is
  none), or the message of the exception it raises.
\<close>

definition call_gemini_api :: "http_outcome \<Rightarrow> string + string" where
  "call_gemini_api outcome =
     (case outcome of
        Timed_out \<Rightarrow> Inl ''Gemini API timed out''
      | Client_error m \<Rightarrow> Inl (''Gemini API call failed: '' @ m)
      | Response status candidates \<Rightarrow>
          if status = 200 then
            (case candidates of
               Some (c # cs) \<Rightarrow> Inr (strip (generated_text c))
             | _ \<Rightarrow> Inr [])
          else Inl (''Gemini API call failed: '' @ ''Gemini API failed with status ''
                    @ show_nat status))"

section \<open>AI client: retry loop\<close>

text \<open>
  What the environment gives to one pass of the loop: the event loop's clock when the
  backoff is computed, the outcome of the HTTP request, and the wall clock when
  \<^verbatim>\<open>_record_error\<close> reads it. The loop returns its result, the service and the events it
  caused, in order. The prompt and the token limit are the same at every attempt and are
  left out of the events.
\<close>

record attempt_env =
  loop_time :: real
  outcome :: http_outcome
  error_time :: real

datatype event = Sleep real | Api_call string

definition then_events ::
  "event list \<Rightarrow> 'r \<times> gemini_service \<times> event list \<Rightarrow> 'r \<times> gemini_service \<times> event list" where
  "then_events evs x = (case x of (r, s, evs') \<Rightarrow> (r, s, evs @ evs'))"

fun retry_loop ::
  "nat list \<Rightarrow> nat \<Rightarrow> (nat \<Rightarrow> attempt_env) \<Rightarrow> gemini_service
     \<Rightarrow> (string + string) \<times> gemini_service \<times> event list" where
  "retry_loop [] max_attempts env s = (Inl ''All retry attempts failed'', s, [])"
| "retry_loop (attempt # rest) max_attempts env s =
     (let model_id = (if attempt > 0 then fallback_model s else model s);
          events = (if attempt > 0
                    then [Sleep (2 ^ attempt + frac (loop_time (env attempt)))] else [])
                   @ [Api_call model_id]
      in case call_gemini_api (outcome (env attempt)) of
           Inr response \<Rightarrow>
             if response \<noteq> [] then (Inr response, s, events)
             else then_events events (retry_loop rest max_attempts env s)
         | Inl error_str \<Rightarrow>
             if contains ''503'' error_str \<or> contains ''UNAVAILABLE'' error_str then
               (let s' = record_error (error_time (env attempt)) s in
                if attempt < max_attempts - 1
                then then_events events (retry_loop rest max_attempts env s')
                else if attempt = max_attempts - 1 then (Inl error_str, s', events)
                else then_events events (retry_loop rest max_attempts env s'))
             else if attempt = max_attempts - 1 then (Inl error_str, s, events)
             else then_events events (retry_loop rest max_attempts env s))"

definition call_with_retry ::
  "nat \<Rightarrow> (nat \<Rightarrow> attempt_env) \<Rightarrow> gemini_service
     \<Rightarrow> (string + string) \<times> gemini_service \<times> event list" where
  "call_with_retry max_attempts env s = retry_loop [0..<max_attempts] max_attempts env s"

section \<open>AI client: reply drafting\<close>

text \<open>\<^verbatim>\<open>s.split(sep)\<close> for a non-empty separator; the first argument is the piece being read.\<close>

fun split_on :: "string \<Rightarrow> string \<Rightarrow> string \<Rightarrow> string list" where
  "split_on sep cur [] = [cur]"
| "split_on sep cur (c # cs) =
     (if startswith (c # cs) sep then cur # split_on sep [] (drop (length sep - 1) cs)
      else split_on sep (cur @ [c]) cs)"

definition py_split :: "string \<Rightarrow> string \<Rightarrow> string list" where
  "py_split s sep = split_on sep [] s"

definition format_response :: "string \<Rightarrow> string" where
  "format_response response =
     (let formatted = strip response in
      if contains ''Resposta profissional:'' formatted
      then strip (last (py_split formatted ''Resposta profissional:''))
      else formatted)"

record reply_dict =
  dict_to :: json
  dict_subject :: json
  dict_body :: json

text \<open>The text handed to \<^verbatim>\<open>json.loads\<close>: stripped, and taken out of a leading code fence.\<close>

definition unfenced :: "string \<Rightarrow> string" where
  "unfenced response =
     (let response = strip response in
      if startswith response ''```'' then
        (let response = py_split response ''```'' ! 1 in
         if startswith response ''json'' then drop 4 response else response)
      else response)"

text \<open>
  \<^verbatim>\<open>_parse_structured_response\<close>. Anything but an object with the three keys raises
  inside the \<^verbatim>\<open>try\<close> (a decode error, a \<^verbatim>\<open>TypeError\<close> or the \<^verbatim>\<open>ValueError\<close> for missing
  fields) and ends in the handler, which reads the variable \<^verbatim>\<open>response\<close> as the
  \<^verbatim>\<open>try\<close> block left it.
\<close>

definition parse_structured_response ::
  "(string \<Rightarrow> json option) \<Rightarrow> string \<Rightarrow> string option \<Rightarrow> string option \<Rightarrow> reply_dict" where
  "parse_structured_response loads response sender subject =
     (let response = unfenced response;
          fallback =
            \<lparr>dict_to = JString (if truthy sender then or_empty sender else ''cliente@email.com''),
             dict_subject = JString (if truthy subject then ''Re: '' @ or_empty subject
                                     else ''Resposta ao seu contato''),
             dict_body = JString (format_response response)\<rparr>
      in case loads (strip response) of
           Some (JObject parsed) \<Rightarrow>
             (case (dict_get parsed ''to'', dict_get parsed ''subject'', dict_get parsed ''body'') of
                (Some t, Some sj, Some b) \<Rightarrow> \<lparr>dict_to = t, dict_subject = sj, dict_body = b\<rparr>
              | _ \<Rightarrow> fallback)
         | _ \<Rightarrow> fallback)"

text \<open>
  \<^verbatim>\<open>generate_response\<close> at clock reading \<open>current_time\<close>. The message text, the category
  and the tenant profile only shape the prompt and are left out.
\<close>

definition generate_response ::
  "(string \<Rightarrow> json option) \<Rightarrow> real \<Rightarrow> (nat \<Rightarrow> attempt_env) \<Rightarrow> string option \<Rightarrow> string option
     \<Rightarrow> gemini_service \<Rightarrow> (string + reply_dict) \<times> gemini_service \<times> event list" where
  "generate_response loads current_time env subject sender s =
     (case is_circuit_open current_time s of
        (True, s1) \<Rightarrow>
          (Inl (''Gemini Text Generation API failed: ''
                @ ''Circuit breaker open - too many recent failures''), s1, [])
      | (False, s1) \<Rightarrow>
          (case call_with_retry 3 env s1 of
             (Inl e, s2, evs) \<Rightarrow> (Inl (''Gemini Text Generation API failed: '' @ e), s2, evs)
           | (Inr response, s2, evs) \<Rightarrow>
               if response = [] \<or> length (strip response) < 20 then
                 (Inl (''Gemini Text Generation API failed: ''
                       @ ''Gemini API returned empty or too short response''), s2, evs)
               else (Inr (parse_structured_response loads response sender subject), s2, evs)))"

section \<open>AI client: structured classification\<close>

datatype error = Exception string | KeyError string | TypeError

fun find_function_call :: "string \<Rightarrow> part list \<Rightarrow> json option" where
  "find_function_call tool_name [] = None"
| "find_function_call tool_name (p # ps) =
     (case part_function_call p of
        None \<Rightarrow> find_function_call tool_name ps
      | Some fc \<Rightarrow>
          if fc_name fc = Some tool_name then Some (get_or (fc_args fc) (JObject []))
          else find_function_call tool_name ps)"

definition could_not_extract :: error where
  "could_not_extract =
     Exception (''Tool calling failed: ''
                @ ''Could not extract structured output from response'')"

definition call_with_tool_calling ::
  "(string \<Rightarrow> json option) \<Rightarrow> string \<Rightarrow> http_outcome \<Rightarrow> error + json" where
  "call_with_tool_calling loads tool_name http =
     (case http of
        Timed_out \<Rightarrow> Inl (Exception ''Tool calling API timed out'')
      | Client_error m \<Rightarrow> Inl (Exception (''Tool calling failed: '' @ m))
      | Response status candidates \<Rightarrow>
          if status = 200 then
            (case candidates of
               Some (c # cs) \<Rightarrow>
                 (case candidate_parts c of
                    None \<Rightarrow> Inl could_not_extract
                  | Some ps \<Rightarrow>
                      (case find_function_call tool_name ps of
                         Some args \<Rightarrow> Inr args
                       | None \<Rightarrow>
                           (case ps of
                              [] \<Rightarrow> Inl (Exception (''Tool calling failed: ''
                                                    @ ''list index out of range''))
                            | p # ps' \<Rightarrow>
                                (case loads (strip (or_empty (part_text p))) of
                                   Some v \<Rightarrow> Inr v
                                 | None \<Rightarrow> Inl could_not_extract))))
             | _ \<Rightarrow> Inl could_not_extract)
          else Inl (Exception (''Tool calling failed: ''
                               @ ''Tool calling API failed with status '' @ show_nat status)))"

text \<open>
  \<^verbatim>\<open>classify_email_with_context\<close> at clock reading \<open>current_time\<close>, the provider answering
  the one request with \<open>http\<close>. After the call the log line subscripts the result with
  \<^verbatim>\<open>'category'\<close> and \<^verbatim>\<open>'reasoning'\<close>, and reads \<^verbatim>\<open>'confidence'\<close> with a default.
\<close>

definition classify_email_with_context ::
  "(string \<Rightarrow> json option) \<Rightarrow> real \<Rightarrow> http_outcome \<Rightarrow> gemini_service
     \<Rightarrow> (error + json) \<times> gemini_service \<times> event list" where
  "classify_email_with_context loads current_time http s =
     (case is_circuit_open current_time s of
        (True, s1) \<Rightarrow>
          (Inl (Exception ''Circuit breaker is open - too many recent errors''), s1, [])
      | (False, s1) \<Rightarrow>
          (case call_with_tool_calling loads ''classify_email'' http of
             Inl e \<Rightarrow> (Inl e, s1, [Api_call (model s1)])
           | Inr response \<Rightarrow>
               (case response of
                  JObject members \<Rightarrow>
                    if \<not> has_key members ''category'' then Inl (KeyError ''category'')
                    else if \<not> has_key members ''reasoning'' then Inl (KeyError ''reasoning'')
                    else Inr response
                | _ \<Rightarrow> Inl TypeError,
                s1, [Api_call (model s1)])))"

section \<open>Orchestrator (classifier.py)\<close>

text \<open>
  What awaiting a stage under \<^verbatim>\<open>asyncio.wait_for\<close> gives: the stage timeout, the
  exception the call raised, or its value.
\<close>

datatype ('e, 'a) awaited = Timeout | Raised 'e | Returned 'a

definition completed :: "'e + 'a \<Rightarrow> ('e, 'a) awaited" where
  "completed r = (case r of Inl e \<Rightarrow> Raised e | Inr v \<Rightarrow> Returned v)"

record structured_response =
  reply_to :: string
  reply_subject :: string
  reply_body :: string

record classification_result =
  result_category :: string
  result_reasoning :: fstring
  suggested_response :: structured_response

text \<open>
  \<^verbatim>\<open>_generate_response\<close> of the classifier: the client's dictionary becomes a
  \<^verbatim>\<open>StructuredResponse\<close>, whose three fields are strings; any failure is raised anew.
\<close>

definition classifier_generate_response :: "string + reply_dict \<Rightarrow> string + structured_response" where
  "classifier_generate_response response_dict =
     (case response_dict of
        Inl e \<Rightarrow> Inl ''AI Response Generation falhou''
      | Inr d \<Rightarrow>
          (case (dict_to d, dict_subject d, dict_body d) of
             (JString t, JString sj, JString b) \<Rightarrow>
               Inr \<lparr>reply_to = t, reply_subject = sj, reply_body = b\<rparr>
           | _ \<Rightarrow> Inl ''AI Response Generation falhou''))"

definition productive_body :: string where
  "productive_body =
     ''Prezado(a),\<newline>\<newline>Recebemos sua mensagem e nossa equipe ir'' @ [CHR 0xE1]
     @ '' analis'' @ [CHR 0xE1] @ ''-la. Retornaremos o contato em breve.''
     @ ''\<newline>\<newline>Atenciosamente,\<newline>Equipe de Suporte''"

definition unproductive_body :: string where
  "unproductive_body =
     ''Prezado(a),\<newline>\<newline>Agradecemos seu contato.\<newline>\<newline>Atenciosamente,\<newline>Equipe''"

text \<open>The reply built in the handler of the drafting stage.\<close>

definition templated_reply :: "json \<Rightarrow> string option \<Rightarrow> string option \<Rightarrow> structured_response" where
  "templated_reply final_category sender subject =
     \<lparr>reply_to = (if truthy sender then or_empty sender else ''cliente@email.com''),
      reply_subject = (if truthy subject then ''Re: '' @ or_empty subject
                       else ''Re: Seu contato''),
      reply_body = (if final_category = JString ''productive'' then productive_body
                    else unproductive_body)\<rparr>"

text \<open>
  \<^verbatim>\<open>ClassificationResult(category, reasoning, suggested_response)\<close>: the category is one
  of the two literals and the reasoning a string, or the constructor raises. The
  reasoning is the heuristic's f-string (\<open>Inl\<close>) or the value the AI result holds (\<open>Inr\<close>).
\<close>

definition ClassificationResult ::
  "json \<Rightarrow> fstring + json \<Rightarrow> structured_response \<Rightarrow> classification_result option" where
  "ClassificationResult cat reas reply =
     (case cat of
        JString c \<Rightarrow>
          if c = ''productive'' \<or> c = ''unproductive'' then
            (case reas of
               Inl fs \<Rightarrow>
                 Some \<lparr>result_category = c, result_reasoning = fs, suggested_response = reply\<rparr>
             | Inr (JString r) \<Rightarrow>
                 Some \<lparr>result_category = c, result_reasoning = [Lit r],
                       suggested_response = reply\<rparr>
             | Inr _ \<Rightarrow> None)
          else None
      | _ \<Rightarrow> None)"

text \<open>
  What one run of \<^verbatim>\<open>classify_and_respond\<close> returns, with the method and the confidence
  its last log line reports (they are not part of the returned object).
\<close>

record pipeline_run =
  run_result :: classification_result
  classification_method :: string
  logged_confidence :: json

datatype service_error = Classification_service_failed

text \<open>
  \<^verbatim>\<open>classify_and_respond\<close>. \<open>ai\<close> is what awaiting the classification call gives, and
  \<open>draft\<close> what awaiting the drafting call gives for the category it is started with. The
  cleaned text only shapes the prompt and is left out. An AI value that is not a
  dictionary raises at \<^verbatim>\<open>ai_result.get\<close>, inside the same \<^verbatim>\<open>try\<close>.
\<close>

definition classify_and_respond ::
  "string \<Rightarrow> string option \<Rightarrow> string option \<Rightarrow> (error, json) awaited
     \<Rightarrow> (json \<Rightarrow> (string, structured_response) awaited) \<Rightarrow> service_error + pipeline_run" where
  "classify_and_respond content subject sender ai draft =
     (let features = extract_all_features content subject;
          fallback_result = nlp_enhanced_fallback content subject (Some features);
          from_fallback =
            (JString (category fallback_result), Inl (reasoning fallback_result),
             JString (confidence fallback_result), ''NLP_fallback'');
          (final_category, final_reasoning, final_confidence, method) =
            (case ai of
               Returned (JObject ai_result) \<Rightarrow>
                 (get_or (dict_get ai_result ''category'') (JString ''unproductive''),
                  Inr (get_or (dict_get ai_result ''reasoning'')
                         (JString (''Classifica'' @ [CHR 0xE7, CHR 0xE3] @ ''o por IA''))),
                  get_or (dict_get ai_result ''confidence'') (JString ''medium''),
                  ''AI+NLP'')
             | Returned _ \<Rightarrow> from_fallback
             | Timeout \<Rightarrow> from_fallback
             | Raised ai_error \<Rightarrow> from_fallback);
          reply =
            (case draft final_category of
               Returned r \<Rightarrow> r
             | Timeout \<Rightarrow> templated_reply final_category sender subject
             | Raised response_error \<Rightarrow> templated_reply final_category sender subject)
      in case ClassificationResult final_category final_reasoning reply of
           None \<Rightarrow> Inl Classification_service_failed
         | Some r \<Rightarrow>
             Inr \<lparr>run_result = r, classification_method = method,
                  logged_confidence = final_confidence\<rparr>)"

section \<open>The rule list of the specification\<close>

text \<open>
  The ordered rule list as the specification words it (section 4.3): a condition on the
  feature vector with the category and the confidence it yields. \<open>first_match\<close> takes the
  outcome of the first rule whose condition holds. These definitions follow the
  specification, not the source; they are what \<open>nlp_enhanced_fallback\<close> is compared with.
\<close>

definition spec_rule1 :: "features \<Rightarrow> bool" where
  "spec_rule1 f =
     (get_or (urgency_score f) 0 > 0.5
      \<and> (get_or (technical_score f) 0 > 0.2 \<or> get_or (business_score f) 0 > 0.2))"

definition spec_rule2 :: "features \<Rightarrow> bool" where
  "spec_rule2 f = (get_or (technical_score f) 0 > 0.4)"

definition spec_rule3 :: "features \<Rightarrow> bool" where
  "spec_rule3 f = (get_or (business_score f) 0 > 0.4)"

definition spec_rule4 :: "features \<Rightarrow> bool" where
  "spec_rule4 f = (get_or (support_score f) 0 > 0.4)"

definition spec_rule5 :: "features \<Rightarrow> bool" where
  "spec_rule5 f =
     (get_or (social_score f) 0 > 0.4 \<and> get_or (technical_score f) 0 < 0.1
      \<and> get_or (business_score f) 0 < 0.1)"

definition spec_rule6 :: "features \<Rightarrow> bool" where
  "spec_rule6 f = (get_or (has_multiple_questions f) False \<and> get_or (social_score f) 0 < 0.2)"

definition spec_rule7 :: "features \<Rightarrow> bool" where
  "spec_rule7 f = (get_or (word_count f) 0 < 10)"

definition spec_rules :: "((features \<Rightarrow> bool) \<times> string \<times> string) list" where
  "spec_rules =
     [(spec_rule1, ''productive'', ''high''),
      (spec_rule2, ''productive'', ''high''),
      (spec_rule3, ''productive'', ''high''),
      (spec_rule4, ''productive'', ''medium''),
      (spec_rule5, ''unproductive'', ''high''),
      (spec_rule6, ''productive'', ''medium''),
      (spec_rule7, ''unproductive'', ''medium''),
      (\<lambda>f. True, ''unproductive'', ''low'')]"

fun first_match :: "((features \<Rightarrow> bool) \<times> 'a) list \<Rightarrow> features \<Rightarrow> 'a option" where
  "first_match [] f = None"
| "first_match ((cond, out) # rules) f = (if cond f then Some out else first_match rules f)"

definition rule1_result :: "features \<Rightarrow> fallback_result" where
  "rule1_result f =
     \<lparr>category = ''productive'',
      reasoning = [Lit (''Email urgente detectado com contexto de neg'' @ [CHR 0xF3]
                        @ ''cios (urg'' @ [CHR 0xEA] @ ''ncia: ''),
                   Float_fmt 1 (get_or (urgency_score f) 0), Lit '')''],
      confidence = ''high''\<rparr>"

definition default_result :: fallback_result where
  "default_result =
     \<lparr>category = ''unproductive'',
      reasoning = [Lit (''Sem indicadores claros de necessidade de a'' @ [CHR 0xE7, CHR 0xE3]
                        @ ''o (an'' @ [CHR 0xE1] @ ''lise NLP conservadora)'')],
      confidence = ''low''\<rparr>"

section \<open>The heuristic classifier follows the ordered rule list\<close>

definition urgent_technical_features :: features where
  "urgent_technical_features =
     \<lparr>technical_score = Some (2 / 3), business_score = Some 0, support_score = Some 0,
      social_score = Some 0, urgency_score = Some 0.6, has_multiple_questions = Some False,
      word_count = Some 12\<rparr>"

definition plain_features :: features where
  "plain_features =
     \<lparr>technical_score = Some 0, business_score = Some 0, support_score = Some 0,
      social_score = Some 0, urgency_score = Some 0, has_multiple_questions = Some False,
      word_count = Some 12\<rparr>"

text \<open>
  C1. The heuristic fallback classifier is a total function of the feature vector that
  evaluates the eight rules of section 4.3 in their order, with the stated thresholds:
  its category and confidence are those of the first rule of the list that matches. A
  vector that matches rule 1 and rule 2 gets rule 1's result (productive, high, with the
  urgency reasoning), and a vector that matches none of the rules 1 to 7 gets
  unproductive, low, with the "no clear indicator" reasoning.
\<close>

theorem heuristic_first_matching_rule:
  "first_match spec_rules f
     = Some (category (nlp_enhanced_fallback content subject (Some f)),
             confidence (nlp_enhanced_fallback content subject (Some f)))
   \<and> (spec_rule1 f \<and> spec_rule2 f
        \<longrightarrow> nlp_enhanced_fallback content subject (Some f) = rule1_result f)
   \<and> (\<not> spec_rule1 f \<and> \<not> spec_rule2 f \<and> \<not> spec_rule3 f \<and> \<not> spec_rule4 f
        \<and> \<not> spec_rule5 f \<and> \<not> spec_rule6 f \<and> \<not> spec_rule7 f
        \<longrightarrow> nlp_enhanced_fallback content subject (Some f) = default_result)"
  by (simp add: nlp_enhanced_fallback_def spec_rules_def spec_rule1_def spec_rule2_def
      spec_rule3_def spec_rule4_def spec_rule5_def spec_rule6_def spec_rule7_def
      rule1_result_def default_result_def Let_def)

theorem heuristic_first_matching_rule_witness:
  "spec_rule1 urgent_technical_features \<and> spec_rule2 urgent_technical_features
   \<and> nlp_enhanced_fallback [] None (Some urgent_technical_features)
       = rule1_result urgent_technical_features
   \<and> \<not> spec_rule1 plain_features \<and> \<not> spec_rule2 plain_features
   \<and> \<not> spec_rule3 plain_features \<and> \<not> spec_rule4 plain_features
   \<and> \<not> spec_rule5 plain_features \<and> \<not> spec_rule6 plain_features
   \<and> \<not> spec_rule7 plain_features
   \<and> nlp_enhanced_fallback [] None (Some plain_features) = default_result"
  using heuristic_first_matching_rule [of urgent_technical_features "[]" None]
    heuristic_first_matching_rule [of plain_features "[]" None]
  by (simp add: spec_rule1_def spec_rule2_def spec_rule3_def spec_rule4_def spec_rule5_def
      spec_rule6_def spec_rule7_def urgent_technical_features_def plain_features_def
      get_or_def)


section \<open>Circuit breaker: opening, rejecting and resetting\<close>

lemma record_error_log:
  "circuit_breaker_errors (record_error t s) = circuit_breaker_errors s @ [t]"
  by (simp add: record_error_def Let_def)

lemma record_error_models:
  "model (record_error t s) = model s \<and> fallback_model (record_error t s) = fallback_model s"
  by (simp add: record_error_def Let_def)

lemma record_error_open_until:
  "circuit_open_until (record_error t s)
     = (if length (circuit_breaker_errors s) + 1 \<ge> 3 then t + 45 else circuit_open_until s)"
  by (simp add: record_error_def Let_def circuit_breaker_threshold_def
      circuit_breaker_timeout_def)

lemma is_circuit_open_after:
  "now > circuit_open_until s \<Longrightarrow>
     is_circuit_open now s = (False, s\<lparr>circuit_breaker_errors := []\<rparr>)"
  by (simp add: is_circuit_open_def)

lemma is_circuit_open_log:
  "circuit_breaker_errors (snd (is_circuit_open now s))
     = (if now > circuit_open_until s then []
        else filter (\<lambda>t. now - t < 60) (circuit_breaker_errors s))"
  by (simp add: is_circuit_open_def Let_def)

lemma is_circuit_open_open_until:
  "circuit_open_until (snd (is_circuit_open now s)) = circuit_open_until s"
  by (simp add: is_circuit_open_def Let_def)

lemma is_circuit_open_three_recent:
  assumes "now \<le> circuit_open_until s"
    and "length (filter (\<lambda>t. now - t < 60) (circuit_breaker_errors s)) \<ge> 3"
  shows "is_circuit_open now s
           = (True, s\<lparr>circuit_breaker_errors :=
                         filter (\<lambda>t. now - t < 60) (circuit_breaker_errors s)\<rparr>)"
  using assms by (simp add: is_circuit_open_def Let_def circuit_breaker_threshold_def)

text \<open>The service after three calls of \<^verbatim>\<open>_record_error\<close>, at the clock readings given.\<close>

definition three_errors :: "real \<Rightarrow> real \<Rightarrow> real \<Rightarrow> gemini_service \<Rightarrow> gemini_service" where
  "three_errors ta tb tc s = record_error tc (record_error tb (record_error ta s))"

lemma three_errors_state:
  "circuit_breaker_errors (three_errors ta tb tc s) = circuit_breaker_errors s @ [ta, tb, tc]
   \<and> circuit_open_until (three_errors ta tb tc s) = tc + 45
   \<and> model (three_errors ta tb tc s) = model s"
  by (simp add: three_errors_def record_error_log record_error_open_until record_error_models)

lemma three_errors_open:
  assumes "now \<le> tc + 45" "now - ta < 60" "now - tb < 60" "now - tc < 60"
  shows "is_circuit_open now (three_errors ta tb tc s)
           = (True, (three_errors ta tb tc s)\<lparr>circuit_breaker_errors :=
                filter (\<lambda>t. now - t < 60) (circuit_breaker_errors (three_errors ta tb tc s))\<rparr>)"
proof -
  let ?s = "three_errors ta tb tc s"
  have "length (filter (\<lambda>t. now - t < 60) (circuit_breaker_errors ?s)) \<ge> 3"
    using assms by (simp add: three_errors_state)
  moreover have "now \<le> circuit_open_until ?s"
    using assms by (simp add: three_errors_state)
  ultimately show ?thesis by (rule is_circuit_open_three_recent[rotated])
qed

text \<open>The events of one pass of the retry loop, and the loop unfolded by one pass.\<close>

definition succeeded :: "string + string \<Rightarrow> bool" where
  "succeeded r = (case r of Inl e \<Rightarrow> False | Inr t \<Rightarrow> t \<noteq> [])"

definition transient :: "string + string \<Rightarrow> bool" where
  "transient r =
     (case r of Inl m \<Rightarrow> contains ''503'' m \<or> contains ''UNAVAILABLE'' m | Inr t \<Rightarrow> False)"

definition api_calls :: "event list \<Rightarrow> nat" where
  "api_calls evs =
     length (filter (\<lambda>e. case e of Api_call m \<Rightarrow> True | Sleep d \<Rightarrow> False) evs)"

definition attempt_events :: "nat \<Rightarrow> (nat \<Rightarrow> attempt_env) \<Rightarrow> gemini_service \<Rightarrow> event list" where
  "attempt_events attempt env s =
     (if attempt > 0
      then [Sleep (2 ^ attempt + frac (loop_time (env attempt))), Api_call (fallback_model s)]
      else [Api_call (model s)])"

lemma retry_loop_step:
  "retry_loop (a # rest) m env s =
     (let r = call_gemini_api (outcome (env a)) in
      if succeeded r then (r, s, attempt_events a env s)
      else if transient r then
        (if a = m - 1 then (r, record_error (error_time (env a)) s, attempt_events a env s)
         else then_events (attempt_events a env s)
                (retry_loop rest m env (record_error (error_time (env a)) s)))
      else if a = m - 1 \<and> \<not> (\<exists>t. r = Inr t) then (r, s, attempt_events a env s)
      else then_events (attempt_events a env s) (retry_loop rest m env s))"
  by (auto simp add: succeeded_def transient_def attempt_events_def Let_def
      split: sum.splits)

lemma upt3: "[0..<3] = [0, 1, 2]"
  by (simp add: upt_rec)

lemma call_with_retry_first_event:
  "hd (snd (snd (call_with_retry 3 env s))) = Api_call (model s)"
  unfolding call_with_retry_def upt3 retry_loop_step
  by (simp add: Let_def then_events_def split_beta attempt_events_def)

text \<open>
  C2 fails as stated: three errors recorded at 100, 120 and 140 lie within one 60-second
  window and open the breaker until 185, yet the call at 170 is let through to the
  network, because the check drops the error of 100 (70 seconds old) and finds two.
\<close>

theorem breaker_lets_call_through_during_cooldown:
  "(140::real) - 100 < 60
   \<and> circuit_open_until (three_errors 100 120 140 init_service) = 185
   \<and> (170::real) \<le> 185
   \<and> classify_email_with_context json_loads 170 Timed_out (three_errors 100 120 140 init_service)
       = (Inl (Exception ''Tool calling API timed out''),
          (three_errors 100 120 140 init_service)\<lparr>circuit_breaker_errors := [120, 140]\<rparr>,
          [Api_call ''gemini-2.5-flash-lite''])"
  by (simp add: three_errors_def record_error_def Let_def circuit_breaker_threshold_def
      circuit_breaker_timeout_def init_service_def classify_email_with_context_def
      is_circuit_open_def call_with_tool_calling_def)

text \<open>
  C2, amended. After three recorded errors \<open>open_until\<close> is the time of the third plus 45
  seconds. A call of either AI operation made no later than \<open>open_until\<close>, at a time when
  the three errors are less than 60 seconds old, is rejected with the circuit-open error
  and causes no network event. A call made after \<open>open_until\<close> finds the breaker closed
  with the error log cleared and is evaluated as any call: classification sends its
  request, drafting behaves as on an empty log and starts with a request on the primary
  model.
\<close>

theorem breaker_rejects_while_open_then_resets:
  assumes "S = three_errors ta tb tc s"
    and "now \<le> tc + 45" and "now - ta < 60" and "now - tb < 60" and "now - tc < 60"
    and "later > tc + 45"
  shows "circuit_open_until S = tc + 45
    \<and> fst (classify_email_with_context loads now http S)
         = Inl (Exception ''Circuit breaker is open - too many recent errors'')
    \<and> snd (snd (classify_email_with_context loads now http S)) = []
    \<and> fst (generate_response loads now env subject sender S)
         = Inl (''Gemini Text Generation API failed: ''
                @ ''Circuit breaker open - too many recent failures'')
    \<and> snd (snd (generate_response loads now env subject sender S)) = []
    \<and> is_circuit_open later S = (False, S\<lparr>circuit_breaker_errors := []\<rparr>)
    \<and> snd (classify_email_with_context loads later http S)
         = (S\<lparr>circuit_breaker_errors := []\<rparr>, [Api_call (model S)])
    \<and> generate_response loads later env subject sender S
         = generate_response loads later env subject sender (S\<lparr>circuit_breaker_errors := []\<rparr>)
    \<and> hd (snd (snd (generate_response loads later env subject sender S))) = Api_call (model S)"
proof -
  have opened: "is_circuit_open now S
      = (True, S\<lparr>circuit_breaker_errors :=
                   filter (\<lambda>t. now - t < 60) (circuit_breaker_errors S)\<rparr>)"
    using three_errors_open[of now tc ta tb s] assms by simp
  have until: "circuit_open_until S = tc + 45"
    using assms(1) by (simp add: three_errors_state)
  have closed: "is_circuit_open later S = (False, S\<lparr>circuit_breaker_errors := []\<rparr>)"
    using until assms(6) by (simp add: is_circuit_open_after)
  have closed': "is_circuit_open later (S\<lparr>circuit_breaker_errors := []\<rparr>)
      = (False, S\<lparr>circuit_breaker_errors := []\<rparr>)"
    using until assms(6) by (simp add: is_circuit_open_def)
  have first: "hd (snd (snd (call_with_retry 3 env (S\<lparr>circuit_breaker_errors := []\<rparr>))))
      = Api_call (model S)"
    by (simp add: call_with_retry_first_event)
  have drafting: "hd (snd (snd (generate_response loads later env subject sender S)))
      = Api_call (model S)"
    using first by (simp add: generate_response_def closed split_beta split: sum.splits)
  show ?thesis
    using until drafting
    by (simp add: classify_email_with_context_def generate_response_def opened closed closed'
        split: sum.splits)
qed

theorem breaker_rejects_while_open_then_resets_witness:
  "(110::real) \<le> 102 + 45 \<and> (110::real) - 100 < 60 \<and> (200::real) > 102 + 45
   \<and> circuit_open_until (three_errors 100 101 102 init_service) = 102 + 45
   \<and> fst (classify_email_with_context json_loads 110 Timed_out
            (three_errors 100 101 102 init_service))
       = Inl (Exception ''Circuit breaker is open - too many recent errors'')
   \<and> snd (snd (generate_response json_loads 110
                  (\<lambda>i. \<lparr>loop_time = 0, outcome = Timed_out, error_time = 111\<rparr>) None None
                  (three_errors 100 101 102 init_service))) = []
   \<and> is_circuit_open 200 (three_errors 100 101 102 init_service)
       = (False, (three_errors 100 101 102 init_service)\<lparr>circuit_breaker_errors := []\<rparr>)"
  using breaker_rejects_while_open_then_resets
    [where S = "three_errors 100 101 102 init_service" and ta = 100 and tb = 101
       and tc = 102 and s = init_service and now = 110 and later = 200
       and loads = json_loads and http = Timed_out and subject = None and sender = None
       and env = "\<lambda>i. \<lparr>loop_time = 0, outcome = Timed_out, error_time = 111\<rparr>"]
  by simp

section \<open>Circuit breaker: what a clearing check forgets\<close>

text \<open>
  A history of the breaker: checks and error recordings, each at its clock reading. The
  second component carried along is the list of the times recorded since the last check
  made strictly after \<open>open_until\<close>.
\<close>

datatype breaker_op = Check real | Record real

fun run_breaker ::
  "breaker_op list \<Rightarrow> gemini_service \<times> real list \<Rightarrow> gemini_service \<times> real list" where
  "run_breaker [] sg = sg"
| "run_breaker (Check now # ops) (s, g) =
     run_breaker ops
       (snd (is_circuit_open now s), if now > circuit_open_until s then [] else g)"
| "run_breaker (Record t # ops) (s, g) = run_breaker ops (record_error t s, g @ [t])"

lemma run_breaker_subseq:
  "subseq (circuit_breaker_errors s) g \<Longrightarrow>
     subseq (circuit_breaker_errors (fst (run_breaker ops (s, g))))
       (snd (run_breaker ops (s, g)))"
proof (induction ops arbitrary: s g)
  case Nil
  then show ?case by simp
next
  case (Cons op ops)
  show ?case
  proof (cases op)
    case (Check now)
    have "subseq (circuit_breaker_errors (snd (is_circuit_open now s)))
            (if now > circuit_open_until s then [] else g)"
      using Cons.prems
      by (auto simp add: is_circuit_open_log intro: subseq_order.trans[OF subseq_filter_left])
    from Cons.IH[OF this] show ?thesis using Check by simp
  next
    case (Record t)
    have "subseq (circuit_breaker_errors (record_error t s)) (g @ [t])"
      using Cons.prems by (simp add: record_error_log list_emb_append_mono)
    from Cons.IH[OF this] show ?thesis using Record by simp
  qed
qed

text \<open>
  C10 fails as stated, for a check that is not made after \<open>open_until\<close>: with errors
  recorded at 100, 120 and 140 the breaker is open until 185; the check at 170 prunes
  the log to the errors of 120 and 140 and reports the breaker closed; the error recorded
  at 171 then reaches the threshold together with the two recorded before that check, and
  the breaker opens until 216.
\<close>

theorem open_transition_across_a_check:
  "is_circuit_open 170 (three_errors 100 120 140 init_service)
     = (False, (three_errors 100 120 140 init_service)\<lparr>circuit_breaker_errors := [120, 140]\<rparr>)
   \<and> circuit_open_until (three_errors 100 120 140 init_service) = 185
   \<and> circuit_breaker_errors
        (record_error 171 (snd (is_circuit_open 170 (three_errors 100 120 140 init_service))))
       = [120, 140, 171]
   \<and> circuit_open_until
        (record_error 171 (snd (is_circuit_open 170 (three_errors 100 120 140 init_service))))
       = 216
   \<and> fst (is_circuit_open 172
        (record_error 171 (snd (is_circuit_open 170 (three_errors 100 120 140 init_service)))))"
  by (simp add: three_errors_def record_error_def Let_def circuit_breaker_threshold_def
      circuit_breaker_timeout_def init_service_def is_circuit_open_def)

text \<open>
  C10, amended. A check made strictly after \<open>open_until\<close> (any check at a positive time in
  the initial state) clears the whole error log and reports the breaker closed. Whatever
  checks and recordings follow it, the log is a subsequence of the times recorded since
  the last check made strictly after \<open>open_until\<close>; so when a recording reaches the
  threshold, at least three errors were recorded with no such check between them. Only a
  recording that reaches the threshold moves \<open>open_until\<close>; a check never does.
\<close>

theorem clearing_check_forgets_recorded_errors:
  "(now > circuit_open_until s \<longrightarrow>
      is_circuit_open now s = (False, s\<lparr>circuit_breaker_errors := []\<rparr>)
      \<and> subseq
           (circuit_breaker_errors (fst (run_breaker ops (snd (is_circuit_open now s), []))))
           (snd (run_breaker ops (snd (is_circuit_open now s), [])))
      \<and> (length (circuit_breaker_errors
                   (fst (run_breaker ops (snd (is_circuit_open now s), [])))) + 1
            \<ge> circuit_breaker_threshold
          \<longrightarrow> length (snd (run_breaker ops (snd (is_circuit_open now s), []))) + 1 \<ge> 3))
   \<and> (0 < now \<longrightarrow> is_circuit_open now init_service = (False, init_service))
   \<and> circuit_open_until (record_error t s)
       = (if length (circuit_breaker_errors s) + 1 \<ge> circuit_breaker_threshold
          then t + circuit_breaker_timeout else circuit_open_until s)
   \<and> circuit_open_until (snd (is_circuit_open now s)) = circuit_open_until s"
proof -
  have a: "subseq
      (circuit_breaker_errors (fst (run_breaker ops (snd (is_circuit_open now s), []))))
      (snd (run_breaker ops (snd (is_circuit_open now s), [])))"
    if "now > circuit_open_until s"
    using that by (intro run_breaker_subseq) (simp add: is_circuit_open_log)
  have b: "length xs \<le> length ys" if "subseq xs ys" for xs ys :: "real list"
    using that by (rule list_emb_length)
  show ?thesis
    using a b[OF a]
    by (auto simp add: is_circuit_open_after is_circuit_open_open_until
        record_error_open_until circuit_breaker_threshold_def circuit_breaker_timeout_def
        init_service_def)
qed

theorem clearing_check_forgets_recorded_errors_witness:
  "(200::real) > circuit_open_until (three_errors 100 120 140 init_service)
   \<and> is_circuit_open 200 (three_errors 100 120 140 init_service)
       = (False, (three_errors 100 120 140 init_service)\<lparr>circuit_breaker_errors := []\<rparr>)
   \<and> run_breaker [Record 201, Check 202, Record 203]
        (snd (is_circuit_open 200 (three_errors 100 120 140 init_service)), [])
       = ((three_errors 100 120 140 init_service)\<lparr>circuit_breaker_errors := [203]\<rparr>, [203])
   \<and> subseq [203::real] [203]
   \<and> (0::real) < 200 \<and> is_circuit_open 200 init_service = (False, init_service)"
  using clearing_check_forgets_recorded_errors
    [where now = 200 and s = "three_errors 100 120 140 init_service"
       and ops = "[Record 201, Check 202, Record 203]" and t = 0]
  by (simp add: three_errors_def record_error_def Let_def circuit_breaker_threshold_def
      circuit_breaker_timeout_def init_service_def is_circuit_open_def)

section \<open>Retry policy of the drafting call\<close>

text \<open>Provider behaviours used as examples.\<close>

definition text_answer :: "string \<Rightarrow> http_outcome" where
  "text_answer t =
     Response 200
       (Some [\<lparr>cand_content =
                  Some \<lparr>content_parts = Some [\<lparr>part_function_call = None, part_text = Some t\<rparr>],
                        content_text = None\<rparr>,
                cand_text = None, finish_reason = Some ''STOP''\<rparr>])"

definition bad_request_then_answer :: "nat \<Rightarrow> attempt_env" where
  "bad_request_then_answer i =
     (if i = 0 then \<lparr>loop_time = 1 / 4, outcome = Response 400 None, error_time = 100\<rparr>
      else \<lparr>loop_time = 1 / 4, outcome = text_answer ''Prezado cliente'', error_time = 100\<rparr>)"

definition two_unavailable_then_answer :: "nat \<Rightarrow> attempt_env" where
  "two_unavailable_then_answer i =
     (if i < 2 then \<lparr>loop_time = 1 / 4, outcome = Response 503 None, error_time = 100 + real i\<rparr>
      else \<lparr>loop_time = 1 / 4, outcome = text_answer ''Prezado cliente'', error_time = 100\<rparr>)"

definition always_timed_out :: "nat \<Rightarrow> attempt_env" where
  "always_timed_out i = \<lparr>loop_time = 1 / 4, outcome = Timed_out, error_time = 100 + real i\<rparr>"

lemma status_message:
  "status \<noteq> 200 \<Longrightarrow>
     call_gemini_api (Response status c)
       = Inl (''Gemini API call failed: Gemini API failed with status '' @ show_nat status)"
  by (simp add: call_gemini_api_def)

lemma show_nat_examples:
  "show_nat 400 = ''400'' \<and> show_nat 500 = ''500'' \<and> show_nat 503 = ''503''"
  by code_simp

lemma transient_examples:
  "transient (call_gemini_api (Response 503 c))
   \<and> \<not> transient (call_gemini_api (Response 500 c))
   \<and> \<not> transient (call_gemini_api (Response 400 c))
   \<and> \<not> transient (call_gemini_api Timed_out)"
  by (simp add: status_message show_nat_examples transient_def call_gemini_api_def)

lemma text_answer_result:
  "call_gemini_api (text_answer ''Prezado cliente'') = Inr ''Prezado cliente''"
  by (simp add: text_answer_def call_gemini_api_def generated_text_def candidate_parts_def
      or_empty_def strip_def lstrip_def rstrip_def py_isspace_def code_def)

lemma frac_quarter: "frac (1 / 4 :: real) = 1 / 4"
  by (simp add: frac_eq)

text \<open>
  C4 fails as stated. A failure that is not of the service-unavailable class does not
  propagate at once: after the status 400 of the first attempt the loop sleeps and makes
  the second attempt, whose answer the call returns. And the classification call has no
  retry: a status 503 fails it after its single request.
\<close>

theorem other_failure_is_retried_and_classification_is_not:
  "call_gemini_api (outcome (bad_request_then_answer 0))
     = Inl ''Gemini API call failed: Gemini API failed with status 400''
   \<and> \<not> transient (call_gemini_api (outcome (bad_request_then_answer 0)))
   \<and> call_with_retry 3 bad_request_then_answer init_service
       = (Inr ''Prezado cliente'', init_service,
          [Api_call ''gemini-2.5-flash-lite'', Sleep (2 + 1 / 4),
           Api_call ''gemini-2.5-flash-lite''])
   \<and> classify_email_with_context json_loads 5 (Response 503 None) init_service
       = (Inl (Exception ''Tool calling failed: Tool calling API failed with status 503''),
          init_service, [Api_call ''gemini-2.5-flash-lite''])"
proof -
  have a: "call_gemini_api (outcome (bad_request_then_answer 0))
     = Inl ''Gemini API call failed: Gemini API failed with status 400''"
    by (simp add: bad_request_then_answer_def status_message show_nat_examples)
  have b: "call_gemini_api (outcome (bad_request_then_answer (Suc 0))) = Inr ''Prezado cliente''"
    by (simp add: bad_request_then_answer_def text_answer_result)
  have l: "loop_time (bad_request_then_answer (Suc 0)) = 1 / 4"
    by (simp add: bad_request_then_answer_def)
  have c: "call_with_retry 3 bad_request_then_answer init_service
       = (Inr ''Prezado cliente'', init_service,
          [Api_call ''gemini-2.5-flash-lite'', Sleep (2 + 1 / 4),
           Api_call ''gemini-2.5-flash-lite''])"
    unfolding call_with_retry_def upt3 retry_loop_step
    by (simp add: a b l Let_def succeeded_def transient_def then_events_def
        attempt_events_def init_service_def frac_quarter)
  have d: "classify_email_with_context json_loads 5 (Response 503 None) init_service
       = (Inl (Exception ''Tool calling failed: Tool calling API failed with status 503''),
          init_service, [Api_call ''gemini-2.5-flash-lite''])"
    by (simp add: classify_email_with_context_def is_circuit_open_def init_service_def
        call_with_tool_calling_def show_nat_examples)
  show ?thesis
    using a c d by (simp add: transient_def)
qed

text \<open>
  C4, amended. The retry policy is that of the drafting call; the classification call
  sends one request on the primary model and does not retry. Drafting makes up to 3
  attempts: attempt 0 on the primary model, every later attempt on the fallback model;
  before attempt \<open>k > 0\<close> it sleeps \<open>2 ^ k\<close> seconds plus a jitter in \<open>[0, 1)\<close>; an attempt
  that fails, of whatever kind, or answers with empty text is followed by the next
  attempt while one is left; the failure of the last attempt propagates, and an empty
  last answer gives the "all attempts failed" error. A call whose first two attempts
  fail with the service-unavailable class and whose third succeeds returns the third
  answer after exactly 3 requests, the 2nd and 3rd on the fallback model, with the two
  failures recorded for the breaker.
\<close>

theorem retry_policy_of_drafting:
  "(succeeded (call_gemini_api (outcome (env 0)))
      \<longrightarrow> call_with_retry 3 env s
            = (call_gemini_api (outcome (env 0)), s, [Api_call (model s)]))
   \<and> (\<not> succeeded (call_gemini_api (outcome (env 0)))
       \<and> succeeded (call_gemini_api (outcome (env 1)))
      \<longrightarrow> fst (call_with_retry 3 env s) = call_gemini_api (outcome (env 1))
        \<and> snd (snd (call_with_retry 3 env s))
            = [Api_call (model s), Sleep (2 + frac (loop_time (env 1))),
               Api_call (fallback_model s)])
   \<and> (\<not> succeeded (call_gemini_api (outcome (env 0)))
       \<and> \<not> succeeded (call_gemini_api (outcome (env 1)))
      \<longrightarrow> fst (call_with_retry 3 env s)
            = (case call_gemini_api (outcome (env 2)) of
                 Inl e \<Rightarrow> Inl e
               | Inr t \<Rightarrow> if t \<noteq> [] then Inr t else Inl ''All retry attempts failed'')
        \<and> snd (snd (call_with_retry 3 env s))
            = [Api_call (model s), Sleep (2 + frac (loop_time (env 1))),
               Api_call (fallback_model s), Sleep (4 + frac (loop_time (env 2))),
               Api_call (fallback_model s)])
   \<and> 0 \<le> frac (loop_time (env k)) \<and> frac (loop_time (env k)) < 1
   \<and> (transient (call_gemini_api (outcome (env 0)))
       \<and> transient (call_gemini_api (outcome (env 1)))
       \<and> succeeded (call_gemini_api (outcome (env 2)))
      \<longrightarrow> call_with_retry 3 env s
            = (call_gemini_api (outcome (env 2)),
               record_error (error_time (env 1)) (record_error (error_time (env 0)) s),
               [Api_call (model s), Sleep (2 + frac (loop_time (env 1))),
                Api_call (fallback_model s), Sleep (4 + frac (loop_time (env 2))),
                Api_call (fallback_model s)])
        \<and> api_calls (snd (snd (call_with_retry 3 env s))) = 3)
   \<and> (\<not> fst (is_circuit_open now s)
      \<longrightarrow> snd (snd (classify_email_with_context loads now http s)) = [Api_call (model s)])"
proof -
  have nt: "\<not> succeeded r" if "transient r" for r
    using that by (auto simp add: succeeded_def transient_def split: sum.splits)
  have loop: "(succeeded (call_gemini_api (outcome (env 0)))
      \<longrightarrow> call_with_retry 3 env s
            = (call_gemini_api (outcome (env 0)), s, [Api_call (model s)]))
   \<and> (\<not> succeeded (call_gemini_api (outcome (env 0)))
       \<and> succeeded (call_gemini_api (outcome (env 1)))
      \<longrightarrow> fst (call_with_retry 3 env s) = call_gemini_api (outcome (env 1))
        \<and> snd (snd (call_with_retry 3 env s))
            = [Api_call (model s), Sleep (2 + frac (loop_time (env 1))),
               Api_call (fallback_model s)])
   \<and> (\<not> succeeded (call_gemini_api (outcome (env 0)))
       \<and> \<not> succeeded (call_gemini_api (outcome (env 1)))
      \<longrightarrow> fst (call_with_retry 3 env s)
            = (case call_gemini_api (outcome (env 2)) of
                 Inl e \<Rightarrow> Inl e
               | Inr t \<Rightarrow> if t \<noteq> [] then Inr t else Inl ''All retry attempts failed'')
        \<and> snd (snd (call_with_retry 3 env s))
            = [Api_call (model s), Sleep (2 + frac (loop_time (env 1))),
               Api_call (fallback_model s), Sleep (4 + frac (loop_time (env 2))),
               Api_call (fallback_model s)])"
    unfolding call_with_retry_def upt3 retry_loop_step
    by (auto simp add: Let_def then_events_def split_beta attempt_events_def
        record_error_models succeeded_def transient_def split: sum.splits)
  have jitter: "0 \<le> frac (loop_time (env k)) \<and> frac (loop_time (env k)) < 1"
    by (simp add: frac_lt_1)
  have third: "call_with_retry 3 env s
            = (call_gemini_api (outcome (env 2)),
               record_error (error_time (env 1)) (record_error (error_time (env 0)) s),
               [Api_call (model s), Sleep (2 + frac (loop_time (env 1))),
                Api_call (fallback_model s), Sleep (4 + frac (loop_time (env 2))),
                Api_call (fallback_model s)])
        \<and> api_calls (snd (snd (call_with_retry 3 env s))) = 3"
    if "transient (call_gemini_api (outcome (env 0)))"
      and "transient (call_gemini_api (outcome (env 1)))"
      and "succeeded (call_gemini_api (outcome (env 2)))"
    unfolding call_with_retry_def upt3 retry_loop_step
    using that nt[OF that(1)] nt[OF that(2)]
    by (simp add: Let_def then_events_def attempt_events_def record_error_models
        api_calls_def)
  have single: "snd (snd (classify_email_with_context loads now http s)) = [Api_call (model s)]"
    if closed: "\<not> fst (is_circuit_open now s)"
  proof (cases "is_circuit_open now s")
    case (Pair a b)
    with closed have "a = False" by simp
    moreover have "model b = model s"
      using Pair by (auto simp add: is_circuit_open_def Let_def split: if_splits)
    ultimately show ?thesis
      using Pair by (simp add: classify_email_with_context_def split: sum.splits)
  qed
  show ?thesis
    using loop jitter third single by blast
qed

theorem retry_policy_of_drafting_witness:
  "transient (call_gemini_api (outcome (two_unavailable_then_answer 0)))
   \<and> transient (call_gemini_api (outcome (two_unavailable_then_answer 1)))
   \<and> succeeded (call_gemini_api (outcome (two_unavailable_then_answer 2)))
   \<and> call_with_retry 3 two_unavailable_then_answer init_service
       = (Inr ''Prezado cliente'',
          init_service\<lparr>circuit_breaker_errors := [100, 101]\<rparr>,
          [Api_call ''gemini-2.5-flash-lite'', Sleep (2 + 1 / 4),
           Api_call ''gemini-2.5-flash-lite'', Sleep (4 + 1 / 4),
           Api_call ''gemini-2.5-flash-lite''])
   \<and> \<not> fst (is_circuit_open 5 init_service)
   \<and> snd (snd (classify_email_with_context json_loads 5 Timed_out init_service))
       = [Api_call ''gemini-2.5-flash-lite'']"
  using retry_policy_of_drafting
    [where env = two_unavailable_then_answer and s = init_service and k = 1 and now = 5
       and loads = json_loads and http = Timed_out]
  by (simp add: two_unavailable_then_answer_def transient_examples text_answer_result
      succeeded_def frac_quarter record_error_def Let_def circuit_breaker_threshold_def
      init_service_def is_circuit_open_def status_message show_nat_examples transient_def)

section \<open>Which failures the breaker hears of\<close>

lemma api_calls_attempt: "api_calls (attempt_events a env s @ evs) = Suc (api_calls evs)"
  by (simp add: api_calls_def attempt_events_def)

lemma api_calls_attempt_only: "api_calls (attempt_events a env s) = Suc 0"
  by (simp add: api_calls_def attempt_events_def)

lemma retry_loop_log:
  "circuit_breaker_errors (fst (snd (retry_loop as m env s)))
     = circuit_breaker_errors s
       @ map (\<lambda>i. error_time (env i))
           (filter (\<lambda>i. transient (call_gemini_api (outcome (env i))))
              (take (api_calls (snd (snd (retry_loop as m env s)))) as))"
proof (induction as arbitrary: s)
  case Nil
  then show ?case by simp
next
  case (Cons a as)
  have nt: "\<not> transient r" if "succeeded r" for r
    using that by (auto simp add: succeeded_def transient_def split: sum.splits)
  show ?case
    unfolding retry_loop_step
    by (simp add: Let_def then_events_def split_beta Cons.IH record_error_log
        api_calls_attempt api_calls_attempt_only nt)
qed

lemma generate_response_effects:
  "\<not> fst (is_circuit_open now s) \<Longrightarrow>
     snd (generate_response loads now env subject sender s)
       = snd (call_with_retry 3 env (snd (is_circuit_open now s)))"
  by (cases "is_circuit_open now s")
     (auto simp add: generate_response_def split: prod.splits sum.splits)

text \<open>
  C5 fails as stated: with the breaker closed, a drafting call whose three requests all
  time out fails and leaves the error log empty.
\<close>

theorem timeouts_are_not_recorded:
  "generate_response json_loads 10 always_timed_out None None init_service
     = (Inl ''Gemini Text Generation API failed: Gemini API timed out'', init_service,
        [Api_call ''gemini-2.5-flash-lite'', Sleep (2 + 1 / 4),
         Api_call ''gemini-2.5-flash-lite'', Sleep (4 + 1 / 4),
         Api_call ''gemini-2.5-flash-lite''])
   \<and> circuit_breaker_errors
        (fst (snd (generate_response json_loads 10 always_timed_out None None init_service)))
       = []"
proof -
  have a: "call_gemini_api (outcome (always_timed_out i)) = Inl ''Gemini API timed out''" for i
    by (simp add: always_timed_out_def call_gemini_api_def)
  have l: "loop_time (always_timed_out i) = 1 / 4" for i
    by (simp add: always_timed_out_def)
  have b: "is_circuit_open 10 init_service = (False, init_service)"
    by (simp add: is_circuit_open_def init_service_def)
  have c: "call_with_retry 3 always_timed_out init_service
     = (Inl ''Gemini API timed out'', init_service,
        [Api_call ''gemini-2.5-flash-lite'', Sleep (2 + 1 / 4),
         Api_call ''gemini-2.5-flash-lite'', Sleep (4 + 1 / 4),
         Api_call ''gemini-2.5-flash-lite''])"
    unfolding call_with_retry_def upt3 retry_loop_step
    by (simp add: a l Let_def succeeded_def transient_def then_events_def
        attempt_events_def init_service_def frac_quarter)
  show ?thesis
    by (simp add: generate_response_def b c) (simp add: init_service_def)
qed

text \<open>
  C5, amended. On the reply-drafting path a failed request appends its timestamp to the
  shared error log exactly when the message of its failure contains "503" or
  "UNAVAILABLE": after the retry loop the log is the log before it followed by the
  timestamps of the requests made that failed so, in order. A status 503 is such a
  failure; a status 500 and a timeout are not.
\<close>

theorem unavailable_failures_are_recorded:
  "circuit_breaker_errors (fst (snd (call_with_retry n env s)))
     = circuit_breaker_errors s
       @ map (\<lambda>i. error_time (env i))
           (filter (\<lambda>i. transient (call_gemini_api (outcome (env i))))
              (take (api_calls (snd (snd (call_with_retry n env s)))) [0..<n]))
   \<and> (\<not> fst (is_circuit_open now s) \<longrightarrow>
        circuit_breaker_errors (fst (snd (generate_response loads now env subject sender s)))
          = circuit_breaker_errors (snd (is_circuit_open now s))
            @ map (\<lambda>i. error_time (env i))
                (filter (\<lambda>i. transient (call_gemini_api (outcome (env i))))
                   (take (api_calls
                            (snd (snd (generate_response loads now env subject sender s))))
                      [0..<3])))
   \<and> transient (call_gemini_api (Response 503 c))
   \<and> \<not> transient (call_gemini_api (Response 500 c))
   \<and> \<not> transient (call_gemini_api Timed_out)"
  using retry_loop_log[of "[0..<3]" 3 env "snd (is_circuit_open now s)"]
  by (simp add: call_with_retry_def retry_loop_log generate_response_effects
      transient_examples)

theorem unavailable_failures_are_recorded_witness:
  "\<not> fst (is_circuit_open 5 init_service)
   \<and> circuit_breaker_errors
        (fst (snd (generate_response json_loads 5 two_unavailable_then_answer None None
                     init_service)))
       = [100, 101]
   \<and> api_calls
        (snd (snd (generate_response json_loads 5 two_unavailable_then_answer None None
                     init_service))) = 3"
proof -
  have closed: "is_circuit_open 5 init_service = (False, init_service)"
    by (simp add: is_circuit_open_def init_service_def)
  have a: "call_gemini_api (outcome (two_unavailable_then_answer i))
      = (if i < 2 then Inl ''Gemini API call failed: Gemini API failed with status 503''
         else Inr ''Prezado cliente'')" for i
    by (simp add: two_unavailable_then_answer_def status_message show_nat_examples
        text_answer_result)
  have calls: "api_calls (snd (snd (call_with_retry 3 two_unavailable_then_answer init_service)))
      = 3"
    unfolding call_with_retry_def upt3 retry_loop_step
    by (simp add: a Let_def succeeded_def transient_def then_events_def attempt_events_def
        api_calls_def)
  have events: "api_calls
        (snd (snd (generate_response json_loads 5 two_unavailable_then_answer None None
                     init_service))) = 3"
    using calls by (simp add: generate_response_effects closed)
  have t: "transient (call_gemini_api (outcome (two_unavailable_then_answer i))) = (i < 2)"
    for i
    by (simp add: a transient_def)
  have e: "error_time (two_unavailable_then_answer i) = (if i < 2 then 100 + real i else 100)"
    for i
    by (simp add: two_unavailable_then_answer_def)
  have empty: "circuit_breaker_errors init_service = []"
    by (simp add: init_service_def)
  have "\<not> fst (is_circuit_open 5 init_service) \<longrightarrow>
      circuit_breaker_errors
        (fst (snd (generate_response json_loads 5 two_unavailable_then_answer None None
                     init_service)))
      = circuit_breaker_errors (snd (is_circuit_open 5 init_service))
        @ map (\<lambda>i. error_time (two_unavailable_then_answer i))
            (filter (\<lambda>i. transient (call_gemini_api (outcome (two_unavailable_then_answer i))))
               (take (api_calls
                        (snd (snd (generate_response json_loads 5 two_unavailable_then_answer
                                     None None init_service))))
                  [0..<3]))"
    by (rule conjunct1[OF conjunct2[OF unavailable_failures_are_recorded]])
  then show ?thesis
    by (simp add: closed events upt3 t e empty)
qed

section \<open>Parsing the drafted reply\<close>

lemma strip_strip: "strip (strip s) = strip s"
proof (cases "dropWhile py_isspace s")
  case Nil
  have e: "strip s = []"
    unfolding strip_def lstrip_def rstrip_def Nil by simp
  show ?thesis
    unfolding e by (simp add: strip_def lstrip_def rstrip_def)
next
  case (Cons x t)
  have x: "\<not> py_isspace x"
    using hd_dropWhile[of py_isspace s] Cons by simp
  have "\<exists>zs. dropWhile py_isspace (rev t @ [x]) = zs @ [x]"
  proof (cases "\<forall>y\<in>set t. py_isspace y")
    case True
    then have "dropWhile py_isspace (rev t @ [x]) = [] @ [x]"
      using x by (simp add: dropWhile_append)
    then show ?thesis by blast
  next
    case False
    then have "dropWhile py_isspace (rev t @ [x]) = dropWhile py_isspace (rev t) @ [x]"
      by (simp add: dropWhile_append)
    then show ?thesis by blast
  qed
  then obtain zs where zs: "dropWhile py_isspace (rev t @ [x]) = zs @ [x]"
    by blast
  have r: "strip s = x # rev zs"
    unfolding strip_def lstrip_def rstrip_def Cons using zs by simp
  have "dropWhile py_isspace (rev (x # rev zs)) = zs @ [x]"
    using zs dropWhile_idem[of py_isspace "rev t @ [x]"] by simp
  then show ?thesis
    unfolding r using x by (simp add: strip_def lstrip_def rstrip_def)
qed

text \<open>The index 1 read in \<open>unfenced\<close> exists: a text that starts with the fence splits in two.\<close>

lemma split_on_nonempty: "split_on sep cur s \<noteq> []"
  by (induction sep cur s rule: split_on.induct) auto

lemma split_at_fence_has_second_piece:
  "sep \<noteq> [] \<Longrightarrow> startswith s sep \<Longrightarrow> length (py_split s sep) \<ge> 2"
  using split_on_nonempty[of sep "[]" "drop (length sep - 1) (tl s)"]
  by (cases s; cases sep) (auto simp add: py_split_def Suc_le_eq)

lemma parse_structured_response_fallback:
  "loads (strip (unfenced response)) = None \<Longrightarrow>
     parse_structured_response loads response sender subject
       = \<lparr>dict_to = JString (if truthy sender then or_empty sender else ''cliente@email.com''),
          dict_subject = JString (if truthy subject then ''Re: '' @ or_empty subject
                                  else ''Resposta ao seu contato''),
          dict_body = JString (format_response (unfenced response))\<rparr>"
  by (simp add: parse_structured_response_def Let_def)

text \<open>The provider output of the specification's example, and a line of prose.\<close>

definition fenced_json_output :: string where
  "fenced_json_output =
     ''```json\<newline>{\"to\":\"a@b.com\",\"subject\":\"S\",\"body\":\"B\"}\<newline>```''"

definition prose_output :: string where
  "prose_output = ''  Prezado cliente, recebemos a sua mensagem.\<newline>''"

lemma fenced_json_output_decoded:
  "json_loads (strip (unfenced fenced_json_output))
     = Some (JObject [(''to'', JString ''a@b.com''), (''subject'', JString ''S''),
                      (''body'', JString ''B'')])"
  by code_simp

lemma prose_output_facts:
  "json_loads (strip (unfenced prose_output)) = None
   \<and> \<not> startswith (strip prose_output) ''```''
   \<and> \<not> contains ''Resposta profissional:'' (strip prose_output)
   \<and> strip prose_output = ''Prezado cliente, recebemos a sua mensagem.''"
  by code_simp

text \<open>
  C7. For the fenced provider output of the example the parsed reply is
  \<open>{to: "a@b.com", subject: "S", body: "B"}\<close>, whatever sender and subject are. For a
  text the JSON decoder rejects (whatever the decoder), parsing does not fail: the reply
  is addressed to the sender, or to the placeholder address when there is none; its
  subject is "Re: " and the original subject, or the default subject when there is none;
  its body is the cleaned text. For prose that neither starts with a code fence nor
  holds the "Resposta profissional:" marker the cleaned text is the stripped prose.
\<close>

theorem reply_parsing_tolerates_fence_and_prose:
  "parse_structured_response json_loads fenced_json_output sender subject
     = \<lparr>dict_to = JString ''a@b.com'', dict_subject = JString ''S'', dict_body = JString ''B''\<rparr>
   \<and> (loads (strip (unfenced response)) = None \<longrightarrow>
        parse_structured_response loads response sender subject
          = \<lparr>dict_to = JString (if truthy sender then or_empty sender
                                 else ''cliente@email.com''),
             dict_subject = JString (if truthy subject then ''Re: '' @ or_empty subject
                                     else ''Resposta ao seu contato''),
             dict_body = JString (format_response (unfenced response))\<rparr>)
   \<and> (\<not> startswith (strip response) ''```''
        \<and> \<not> contains ''Resposta profissional:'' (strip response)
        \<longrightarrow> format_response (unfenced response) = strip response)"
proof -
  have fenced: "parse_structured_response json_loads fenced_json_output sender subject
     = \<lparr>dict_to = JString ''a@b.com'', dict_subject = JString ''S'', dict_body = JString ''B''\<rparr>"
    by (simp add: parse_structured_response_def Let_def fenced_json_output_decoded dict_get_def)
  have prose: "format_response (unfenced response) = strip response"
    if "\<not> startswith (strip response) ''```''"
      and "\<not> contains ''Resposta profissional:'' (strip response)"
    using that by (simp add: unfenced_def format_response_def Let_def strip_strip)
  show ?thesis
    using fenced prose parse_structured_response_fallback by blast
qed

theorem reply_parsing_tolerates_fence_and_prose_witness:
  "json_loads (strip (unfenced prose_output)) = None
   \<and> \<not> startswith (strip prose_output) ''```''
   \<and> \<not> contains ''Resposta profissional:'' (strip prose_output)
   \<and> parse_structured_response json_loads prose_output (Some ''ana@email.com'') (Some ''Pedido'')
       = \<lparr>dict_to = JString ''ana@email.com'', dict_subject = JString ''Re: Pedido'',
          dict_body = JString ''Prezado cliente, recebemos a sua mensagem.''\<rparr>
   \<and> parse_structured_response json_loads prose_output None None
       = \<lparr>dict_to = JString ''cliente@email.com'',
          dict_subject = JString ''Resposta ao seu contato'',
          dict_body = JString ''Prezado cliente, recebemos a sua mensagem.''\<rparr>"
  using reply_parsing_tolerates_fence_and_prose
      [where loads = json_loads and response = prose_output
         and sender = "Some ''ana@email.com''" and subject = "Some ''Pedido''"]
    reply_parsing_tolerates_fence_and_prose
      [where loads = json_loads and response = prose_output and sender = None
         and subject = None]
    prose_output_facts
  by (simp add: truthy_def or_empty_def)

section \<open>Free text instead of a function call\<close>

text \<open>Free-text answers of the provider: an object without a confidence, and an empty one.\<close>

definition answer_without_confidence :: http_outcome where
  "answer_without_confidence =
     text_answer ''{\"category\":\"productive\",\"reasoning\":\"r\"}''"

definition empty_object_answer :: http_outcome where
  "empty_object_answer = text_answer ''{}''"

lemma text_path:
  assumes "candidate_parts c = Some (p # ps)"
    and "find_function_call tool_name (p # ps) = None"
  shows "call_with_tool_calling loads tool_name (Response 200 (Some (c # cs)))
           = (case loads (strip (or_empty (part_text p))) of
                None \<Rightarrow> Inl could_not_extract
              | Some v \<Rightarrow> Inr v)"
  using assms by (simp add: call_with_tool_calling_def)

text \<open>
  C8 fails as stated: no required key is validated where the text is parsed, and the
  classification call accepts an object that has no confidence. \<^verbatim>\<open>_call_with_tool_calling\<close>
  returns even the empty object.
\<close>

theorem missing_confidence_is_accepted:
  "classify_email_with_context json_loads 5 answer_without_confidence init_service
     = (Inr (JObject [(''category'', JString ''productive''), (''reasoning'', JString ''r'')]),
        init_service, [Api_call ''gemini-2.5-flash-lite''])
   \<and> \<not> has_key [(''category'', JString ''productive''), (''reasoning'', JString ''r'')]
          ''confidence''
   \<and> call_with_tool_calling json_loads ''classify_email'' empty_object_answer
       = Inr (JObject [])"
  by code_simp

text \<open>
  C8, amended. When the first candidate holds parts none of which is a call of the tool,
  the text of the first part is stripped and decoded as JSON, and
  \<^verbatim>\<open>_call_with_tool_calling\<close> returns whatever value the decoder gives, failing only when
  the decoder fails. The classification call then fails with a \<^verbatim>\<open>KeyError\<close> when that value
  is an object without \<^verbatim>\<open>category\<close> or without \<^verbatim>\<open>reasoning\<close>, and with a \<^verbatim>\<open>TypeError\<close> when
  it is no object; \<^verbatim>\<open>confidence\<close> is not required.
\<close>

theorem free_text_is_decoded_and_two_keys_are_needed:
  assumes "candidate_parts c = Some (p # ps)"
    and "find_function_call ''classify_email'' (p # ps) = None"
    and "\<not> fst (is_circuit_open now s)"
  shows "call_with_tool_calling loads ''classify_email'' (Response 200 (Some (c # cs)))
           = (case loads (strip (or_empty (part_text p))) of
                None \<Rightarrow> Inl could_not_extract
              | Some v \<Rightarrow> Inr v)
    \<and> fst (classify_email_with_context loads now (Response 200 (Some (c # cs))) s)
        = (case loads (strip (or_empty (part_text p))) of
             None \<Rightarrow> Inl could_not_extract
           | Some (JObject members) \<Rightarrow>
               if has_key members ''category'' \<and> has_key members ''reasoning''
               then Inr (JObject members)
               else if has_key members ''category'' then Inl (KeyError ''reasoning'')
               else Inl (KeyError ''category'')
           | Some other \<Rightarrow> Inl TypeError)"
proof -
  have closed: "is_circuit_open now s = (False, snd (is_circuit_open now s))"
    using assms(3) by (cases "is_circuit_open now s") simp
  have call: "call_with_tool_calling loads ''classify_email'' (Response 200 (Some (c # cs)))
           = (case loads (strip (or_empty (part_text p))) of
                None \<Rightarrow> Inl could_not_extract
              | Some v \<Rightarrow> Inr v)"
    using assms(1,2) by (rule text_path)
  have "fst (classify_email_with_context loads now (Response 200 (Some (c # cs))) s)
        = (case call_with_tool_calling loads ''classify_email'' (Response 200 (Some (c # cs))) of
             Inl e \<Rightarrow> Inl e
           | Inr response \<Rightarrow>
               (case response of
                  JObject members \<Rightarrow>
                    if \<not> has_key members ''category'' then Inl (KeyError ''category'')
                    else if \<not> has_key members ''reasoning'' then Inl (KeyError ''reasoning'')
                    else Inr response
                | _ \<Rightarrow> Inl TypeError))"
    unfolding classify_email_with_context_def
    by (subst closed) (simp split: sum.splits)
  then show ?thesis
    unfolding call by (auto split: option.splits json.splits)
qed

theorem free_text_is_decoded_and_two_keys_are_needed_witness:
  "\<not> fst (is_circuit_open 5 init_service)
   \<and> fst (classify_email_with_context json_loads 5
            (text_answer ''{\"category\":\"productive\"}'') init_service)
       = Inl (KeyError ''reasoning'')
   \<and> fst (classify_email_with_context json_loads 5 (text_answer ''not json'') init_service)
       = Inl could_not_extract"
proof -
  let ?p = "\<lambda>t. \<lparr>part_function_call = None, part_text = Some t\<rparr>"
  let ?c = "\<lambda>t. \<lparr>cand_content = Some \<lparr>content_parts = Some [?p t], content_text = None\<rparr>,
                  cand_text = None, finish_reason = Some ''STOP''\<rparr>"
  have closed: "\<not> fst (is_circuit_open 5 init_service)"
    by (simp add: is_circuit_open_def init_service_def)
  have parts: "candidate_parts (?c t) = Some [?p t]" for t
    by (simp add: candidate_parts_def)
  have none: "find_function_call ''classify_email'' [?p t] = None" for t
    by simp
  have a: "json_loads (strip (or_empty (Some ''{\"category\":\"productive\"}'')))
      = Some (JObject [(''category'', JString ''productive'')])"
    by code_simp
  have b: "json_loads (strip (or_empty (Some ''not json''))) = None"
    by code_simp
  have k: "has_key [(''category'', JString ''productive'')] ''category''
      \<and> \<not> has_key [(''category'', JString ''productive'')] ''reasoning''"
    by (simp add: has_key_def dict_get_def)
  show ?thesis
    using free_text_is_decoded_and_two_keys_are_needed
        [OF parts[of "''{\"category\":\"productive\"}''"]
            none[of "''{\"category\":\"productive\"}''"] closed,
          where cs = "[]" and loads = json_loads]
      free_text_is_decoded_and_two_keys_are_needed
        [OF parts[of "''not json''"] none[of "''not json''"] closed,
          where cs = "[]" and loads = json_loads]
      closed
    by (simp add: a b k text_answer_def)
qed

section \<open>Orchestrator: the heuristic tier\<close>

lemma fallback_category:
  "category (nlp_enhanced_fallback content subject fo) = ''productive''
   \<or> category (nlp_enhanced_fallback content subject fo) = ''unproductive''"
  by (simp add: nlp_enhanced_fallback_def Let_def)

text \<open>
  The classifier also answers on the empty dictionary, which the extractor returns on its
  error path: every score defaults to 0 and the word count to 0.
\<close>

lemma fallback_on_empty_features:
  "nlp_enhanced_fallback content subject (Some empty_features)
     = \<lparr>category = ''unproductive'',
        reasoning = [Lit ''Mensagem muito curta ('', Int_fmt 0,
                     Lit '' palavras) sem indicadores claros''],
        confidence = ''medium''\<rparr>"
  by (simp add: nlp_enhanced_fallback_def empty_features_def get_or_def)

text \<open>What the run is once the classification is the heuristic one.\<close>

definition heuristic_run ::
  "string \<Rightarrow> string option \<Rightarrow> string option
     \<Rightarrow> (json \<Rightarrow> (string, structured_response) awaited) \<Rightarrow> pipeline_run" where
  "heuristic_run content subject sender draft =
     (let fb = nlp_enhanced_fallback content subject
                 (Some (extract_all_features content subject))
      in \<lparr>run_result =
            \<lparr>result_category = category fb, result_reasoning = reasoning fb,
             suggested_response =
               (case draft (JString (category fb)) of
                  Returned r \<Rightarrow> r
                | Timeout \<Rightarrow> templated_reply (JString (category fb)) sender subject
                | Raised e \<Rightarrow> templated_reply (JString (category fb)) sender subject)\<rparr>,
          classification_method = ''NLP_fallback'',
          logged_confidence = JString (confidence fb)\<rparr>)"

lemma classify_and_respond_on_ai_failure:
  assumes "ai = Timeout \<or> ai = Raised e"
  shows "classify_and_respond content subject sender ai draft
           = Inr (heuristic_run content subject sender draft)"
proof -
  let ?fb = "nlp_enhanced_fallback content subject (Some (extract_all_features content subject))"
  have valid: "ClassificationResult (JString (category ?fb)) (Inl (reasoning ?fb)) reply
      = Some \<lparr>result_category = category ?fb, result_reasoning = reasoning ?fb,
              suggested_response = reply\<rparr>" for reply
    using fallback_category[of content subject "Some (extract_all_features content subject)"]
    by (auto simp add: ClassificationResult_def)
  show ?thesis
    using assms
    by (auto simp add: classify_and_respond_def heuristic_run_def Let_def valid
        split: awaited.splits)
qed

text \<open>
  C3. When awaiting the AI classification ends in the stage timeout or in any exception
  (the circuit-open one included), the run returns a result and raises nothing: its
  category, reasoning and confidence are those of the heuristic classifier applied to the
  feature vector computed at the start, and its method is the fallback one. The
  heuristic classifier is total and always yields one of the two categories, so the
  result object is always accepted.
\<close>

theorem ai_failure_falls_back_to_heuristic:
  "(ai = Timeout \<or> ai = Raised e \<longrightarrow>
      classify_and_respond content subject sender ai draft
        = Inr (heuristic_run content subject sender draft))
   \<and> result_category (run_result (heuristic_run content subject sender draft))
       = category (nlp_enhanced_fallback content subject
                     (Some (extract_all_features content subject)))
   \<and> result_reasoning (run_result (heuristic_run content subject sender draft))
       = reasoning (nlp_enhanced_fallback content subject
                      (Some (extract_all_features content subject)))
   \<and> classification_method (heuristic_run content subject sender draft) = ''NLP_fallback''
   \<and> (category (nlp_enhanced_fallback content subject fo) = ''productive''
        \<or> category (nlp_enhanced_fallback content subject fo) = ''unproductive'')
   \<and> completed (fst (classify_email_with_context loads now http
                        (three_errors (now - 3) (now - 2) (now - 1) s)))
       = Raised (Exception ''Circuit breaker is open - too many recent errors'')"
proof -
  have "is_circuit_open now (three_errors (now - 3) (now - 2) (now - 1) s)
      = (True, (three_errors (now - 3) (now - 2) (now - 1) s)\<lparr>circuit_breaker_errors :=
          filter (\<lambda>t. now - t < 60)
            (circuit_breaker_errors (three_errors (now - 3) (now - 2) (now - 1) s))\<rparr>)"
    by (rule three_errors_open) simp_all
  then have "completed (fst (classify_email_with_context loads now http
                        (three_errors (now - 3) (now - 2) (now - 1) s)))
       = Raised (Exception ''Circuit breaker is open - too many recent errors'')"
    by (simp add: classify_email_with_context_def completed_def)
  then show ?thesis
    using classify_and_respond_on_ai_failure[of ai e content subject sender draft]
      fallback_category[of content subject fo]
    by (simp add: heuristic_run_def Let_def)
qed

theorem ai_failure_falls_back_to_heuristic_witness:
  "classify_and_respond ''Bom dia'' None None Timeout (\<lambda>c. Timeout)
     = Inr (heuristic_run ''Bom dia'' None None (\<lambda>c. Timeout))
   \<and> classify_and_respond ''Bom dia'' None None
        (Raised (Exception ''Circuit breaker is open - too many recent errors''))
        (\<lambda>c. Timeout)
     = Inr (heuristic_run ''Bom dia'' None None (\<lambda>c. Timeout))"
  using ai_failure_falls_back_to_heuristic
      [where ai = Timeout and content = "''Bom dia''" and subject = None and sender = None
         and draft = "\<lambda>c. Timeout"]
    ai_failure_falls_back_to_heuristic
      [where ai = "Raised (Exception ''Circuit breaker is open - too many recent errors'')"
         and e = "Exception ''Circuit breaker is open - too many recent errors''"
         and content = "''Bom dia''" and subject = None and sender = None
         and draft = "\<lambda>c. Timeout"]
  by simp

section \<open>Orchestrator: the templated reply\<close>

lemma ClassificationResult_Some:
  "ClassificationResult cat reas reply = Some r \<Longrightarrow>
     cat = JString (result_category r) \<and> suggested_response r = reply"
  by (auto simp add: ClassificationResult_def split: json.splits if_splits sum.splits)

lemma classify_and_respond_shape:
  "\<exists>cat reas conf meth.
     classify_and_respond content subject sender ai draft
       = (case ClassificationResult cat reas
                 (case draft cat of
                    Returned r \<Rightarrow> r
                  | Timeout \<Rightarrow> templated_reply cat sender subject
                  | Raised e \<Rightarrow> templated_reply cat sender subject) of
            None \<Rightarrow> Inl Classification_service_failed
          | Some r \<Rightarrow>
              Inr \<lparr>run_result = r, classification_method = meth,
                   logged_confidence = conf\<rparr>)"
  unfolding classify_and_respond_def Let_def split_beta
  by (intro exI) (rule refl)

lemma classify_and_respond_reply:
  assumes "classify_and_respond content subject sender ai draft = Inr run"
  shows "suggested_response (run_result run)
           = (case draft (JString (result_category (run_result run))) of
                Returned r \<Rightarrow> r
              | Timeout \<Rightarrow>
                  templated_reply (JString (result_category (run_result run))) sender subject
              | Raised e \<Rightarrow>
                  templated_reply (JString (result_category (run_result run))) sender subject)"
proof -
  from classify_and_respond_shape[of content subject sender ai draft]
  obtain cat reas conf meth where shape:
    "classify_and_respond content subject sender ai draft
       = (case ClassificationResult cat reas
                 (case draft cat of
                    Returned r \<Rightarrow> r
                  | Timeout \<Rightarrow> templated_reply cat sender subject
                  | Raised e \<Rightarrow> templated_reply cat sender subject) of
            None \<Rightarrow> Inl Classification_service_failed
          | Some r \<Rightarrow>
              Inr \<lparr>run_result = r, classification_method = meth,
                   logged_confidence = conf\<rparr>)"
    by blast
  let ?reply = "case draft cat of
                  Returned r \<Rightarrow> r
                | Timeout \<Rightarrow> templated_reply cat sender subject
                | Raised e \<Rightarrow> templated_reply cat sender subject"
  from assms shape obtain r where r: "ClassificationResult cat reas ?reply = Some r"
    and run: "run_result run = r"
    by (cases "ClassificationResult cat reas ?reply") auto
  from ClassificationResult_Some[OF r] show ?thesis
    using run by (auto split: awaited.splits)
qed

text \<open>
  C6. Every result of the run holds a reply with its three fields. When awaiting the
  drafting call ends in the stage timeout or in an exception, the reply is the template:
  its body is one of two fixed texts, the first for the category productive and the
  second otherwise; its recipient is the sender, or the placeholder address when there is
  none; its subject is "Re: " and the original subject, or "Re: Seu contato". Otherwise
  the reply is the drafted one.
\<close>

theorem failed_drafting_gives_templated_reply:
  assumes "classify_and_respond content subject sender ai draft = Inr run"
  shows "(draft (JString (result_category (run_result run))) = Timeout
          \<or> draft (JString (result_category (run_result run))) = Raised e
          \<longrightarrow> suggested_response (run_result run)
                = \<lparr>reply_to = (if truthy sender then or_empty sender
                               else ''cliente@email.com''),
                   reply_subject = (if truthy subject then ''Re: '' @ or_empty subject
                                    else ''Re: Seu contato''),
                   reply_body = (if result_category (run_result run) = ''productive''
                                 then productive_body else unproductive_body)\<rparr>
              \<and> startswith (reply_subject (suggested_response (run_result run))) ''Re:'')
    \<and> (draft (JString (result_category (run_result run))) = Returned r
          \<longrightarrow> suggested_response (run_result run) = r)
    \<and> productive_body \<noteq> unproductive_body"
proof -
  have "productive_body \<noteq> unproductive_body"
    by (simp add: productive_body_def unproductive_body_def)
  then show ?thesis
    using classify_and_respond_reply[OF assms]
    by (auto simp add: templated_reply_def)
qed

theorem failed_drafting_gives_templated_reply_witness:
  "classify_and_respond ''Bom dia'' (Some ''Oi'') None Timeout (\<lambda>c. Raised ''falhou'')
     = Inr (heuristic_run ''Bom dia'' (Some ''Oi'') None (\<lambda>c. Raised ''falhou''))
   \<and> suggested_response
        (run_result (heuristic_run ''Bom dia'' (Some ''Oi'') None (\<lambda>c. Raised ''falhou'')))
       = \<lparr>reply_to = ''cliente@email.com'', reply_subject = ''Re: Oi'',
          reply_body = unproductive_body\<rparr>"
proof -
  have run: "classify_and_respond ''Bom dia'' (Some ''Oi'') None Timeout (\<lambda>c. Raised ''falhou'')
     = Inr (heuristic_run ''Bom dia'' (Some ''Oi'') None (\<lambda>c. Raised ''falhou''))"
    by (rule classify_and_respond_on_ai_failure[where e = TypeError]) simp
  have cat: "result_category
      (run_result (heuristic_run ''Bom dia'' (Some ''Oi'') None (\<lambda>c. Raised ''falhou'')))
      = ''unproductive''"
    by code_simp
  show ?thesis
    using failed_drafting_gives_templated_reply[OF run, where e = "''falhou''"]
    by (simp add: run cat truthy_def or_empty_def)
qed

section \<open>End to end: the urgent message with the AI path disabled\<close>

definition urgent_message :: string where
  "urgent_message =
     ''O sistema est'' @ [CHR 0xE1] @ '' travando, erro 500, preciso de ajuda urgente!!''"

definition technical_result :: "real \<Rightarrow> fallback_result" where
  "technical_result score =
     \<lparr>category = ''productive'',
      reasoning = [Lit (''Problema t'' @ [CHR 0xE9]
                        @ ''cnico identificado pelas features NLP (score: ''),
                   Float_fmt 2 score, Lit '')''],
      confidence = ''high''\<rparr>"

text \<open>
  The urgency score of the message is the sum \<open>0.3 + 0.2\<close>. The binary64 values of the two
  literals add up to one half exactly, so the floating-point sum is \<open>0.5\<close> as the real
  sum is, and \<open>0.5 > 0.5\<close> is false in both.
\<close>

definition binary64_0_3 :: real where
  "binary64_0_3 = 5404319552844595 / 2 ^ 54"

definition binary64_0_2 :: real where
  "binary64_0_2 = 3602879701896397 / 2 ^ 54"

lemma binary64_sum_is_half: "binary64_0_3 + binary64_0_2 = 1 / 2"
  by (simp add: binary64_0_3_def binary64_0_2_def)

lemma urgent_message_features:
  "extract_all_features urgent_message (Some ''Urgente'')
     = \<lparr>technical_score = Some (2 / 3), business_score = Some 0,
        support_score = Some (1 / 3), social_score = Some 0, urgency_score = Some (1 / 2),
        has_multiple_questions = Some False, word_count = Some 10\<rparr>"
  by code_simp

lemma urgent_message_fallback:
  "nlp_enhanced_fallback urgent_message (Some ''Urgente'')
     (Some (extract_all_features urgent_message (Some ''Urgente'')))
     = technical_result (2 / 3)"
  unfolding urgent_message_features
  by (simp add: nlp_enhanced_fallback_def technical_result_def get_or_def)

text \<open>
  C9 fails as stated: the message scores urgency 0.5 (one urgency keyword and two
  exclamation marks), which is not above 0.5, so rule 1 does not match and the result is
  not rule 1's.
\<close>

theorem urgent_message_misses_rule1:
  "urgency_score (extract_all_features urgent_message (Some ''Urgente'')) = Some (1 / 2)
   \<and> \<not> spec_rule1 (extract_all_features urgent_message (Some ''Urgente''))
   \<and> nlp_enhanced_fallback urgent_message (Some ''Urgente'')
        (Some (extract_all_features urgent_message (Some ''Urgente'')))
       \<noteq> rule1_result (extract_all_features urgent_message (Some ''Urgente''))"
  unfolding urgent_message_fallback
  unfolding urgent_message_features
  by (simp add: spec_rule1_def get_or_def technical_result_def rule1_result_def)

text \<open>
  C9, amended. For that message and subject, with the breaker open, the classification
  call is rejected without a network event and the run yields the category productive
  by the heuristic method, by the technical-score rule (rule 2: the technical score is
  2/3), with confidence high; rule 1 does not match.
\<close>

theorem urgent_message_is_productive_by_technical_rule:
  assumes "fst (is_circuit_open now s)"
  shows "snd (snd (classify_email_with_context loads now http s)) = []
    \<and> classify_and_respond urgent_message (Some ''Urgente'') sender
        (completed (fst (classify_email_with_context loads now http s))) draft
       = Inr \<lparr>run_result =
               \<lparr>result_category = ''productive'',
                result_reasoning = reasoning (technical_result (2 / 3)),
                suggested_response =
                  (case draft (JString ''productive'') of
                     Returned r \<Rightarrow> r
                   | Timeout \<Rightarrow> templated_reply (JString ''productive'') sender (Some ''Urgente'')
                   | Raised e \<Rightarrow>
                       templated_reply (JString ''productive'') sender (Some ''Urgente''))\<rparr>,
              classification_method = ''NLP_fallback'',
              logged_confidence = JString ''high''\<rparr>
    \<and> spec_rule2 (extract_all_features urgent_message (Some ''Urgente''))
    \<and> \<not> spec_rule1 (extract_all_features urgent_message (Some ''Urgente''))
    \<and> first_match spec_rules (extract_all_features urgent_message (Some ''Urgente''))
        = Some (''productive'', ''high'')"
proof -
  have opened: "is_circuit_open now s = (True, snd (is_circuit_open now s))"
    using assms by (cases "is_circuit_open now s") simp
  have rejected: "classify_email_with_context loads now http s
      = (Inl (Exception ''Circuit breaker is open - too many recent errors''),
         snd (is_circuit_open now s), [])"
    unfolding classify_email_with_context_def by (subst opened) simp
  have run: "classify_and_respond urgent_message (Some ''Urgente'') sender
        (Raised (Exception ''Circuit breaker is open - too many recent errors'')) draft
      = Inr (heuristic_run urgent_message (Some ''Urgente'') sender draft)"
    by (rule classify_and_respond_on_ai_failure) simp
  have rules: "spec_rule2 (extract_all_features urgent_message (Some ''Urgente''))
    \<and> \<not> spec_rule1 (extract_all_features urgent_message (Some ''Urgente''))
    \<and> first_match spec_rules (extract_all_features urgent_message (Some ''Urgente''))
        = Some (''productive'', ''high'')"
    unfolding urgent_message_features
    by (simp add: spec_rules_def spec_rule1_def spec_rule2_def get_or_def)
  show ?thesis
    using rules
    by (simp add: rejected completed_def run heuristic_run_def urgent_message_fallback
        Let_def)
       (simp add: technical_result_def split: awaited.splits)
qed

theorem urgent_message_is_productive_by_technical_rule_witness:
  "fst (is_circuit_open 110 (three_errors 100 101 102 init_service))
   \<and> classify_and_respond urgent_message (Some ''Urgente'') None
        (completed (fst (classify_email_with_context json_loads 110 Timed_out
                           (three_errors 100 101 102 init_service))))
        (\<lambda>c. Timeout)
       = Inr \<lparr>run_result =
               \<lparr>result_category = ''productive'',
                result_reasoning = reasoning (technical_result (2 / 3)),
                suggested_response =
                  templated_reply (JString ''productive'') None (Some ''Urgente'')\<rparr>,
              classification_method = ''NLP_fallback'',
              logged_confidence = JString ''high''\<rparr>"
proof -
  have opened: "fst (is_circuit_open 110 (three_errors 100 101 102 init_service))"
    using three_errors_open[of 110 102 100 101 init_service] by simp
  show ?thesis
    using urgent_message_is_productive_by_technical_rule
        [OF opened, where loads = json_loads and http = Timed_out and sender = None
           and draft = "\<lambda>c. Timeout"]
      opened
    by simp
qed

end
